theory Spec2Isabelle
  imports Main "HOL-Library.Word"
begin

section \<open>Go values shared by both packages\<close>

text \<open>
  A Go \<open>string\<close> is a byte string and is modelled by \<open>string\<close>; a \<open>[]byte\<close> is a list
  of 8-bit words, so that the two dynamic types stay apart. An \<open>error\<close> is modelled by
  the message that its \<open>Error()\<close> method returns.
\<close>

type_synonym byte = "8 word"

datatype go_error = ErrorString string

fun Error_msg :: "go_error \<Rightarrow> string" where
  "Error_msg (ErrorString s) = s"

definition errors_New :: "string \<Rightarrow> go_error" where
  "errors_New text = ErrorString text"

text \<open>The conversion \<open>([]byte)(data)\<close> of a string.\<close>

definition bytes_of_string :: "string \<Rightarrow> byte list" where
  "bytes_of_string data = map (\<lambda>c. of_nat (of_char c)) data"

text \<open>
  A value of type \<open>interface{}\<close>, by dynamic type: the nil interface, a string, a byte
  slice, an error, or a value of any other dynamic type (identified by a tag).
\<close>

datatype iface = INil | IString string | IBytes "byte list" | IError go_error | IOther nat

text \<open>Constants of the core-contracts \<open>clients\<close> package.\<close>

definition CorrelationHeader :: string where
  "CorrelationHeader = ''correlation-id''"

definition ContentTypeJSON :: string where
  "ContentTypeJSON = ''application/json''"

section \<open>Configuration and execution context\<close>

record BindingInfo =
  SubscribeTopic :: string
  PublishTopic :: string

datatype MessageBusConfig = MessageBusConfig string

record ConfigurationStruct =
  Binding :: BindingInfo
  MessageBus :: MessageBusConfig

text \<open>
  The data fields of \<open>appcontext.Context\<close>. \<open>OutputData\<close> is a byte slice that is nil
  (\<open>None\<close>) until it is set. The logging client and the event client of the context are
  collaborators; calls to them appear in the trace.
\<close>

record Context =
  EventID :: string
  EventChecksum :: string
  CorrelationID :: string
  Configuration :: ConfigurationStruct
  OutputData :: "byte list option"

text \<open>
  An envelope of the message bus (\<open>types.MessageEnvelope\<close>) and a subscription
  (\<open>types.TopicChannel\<close>; its channel is the stream of deliveries the worker reads).
\<close>

record MessageEnvelope =
  CorrelationID_msg :: string
  Payload :: "byte list"
  ContentType :: string

record TopicChannel =
  Topic_ch :: string

text \<open>
  What a function does to its collaborators (the logging client, the MQTT client, the
  context's store client, the bus client, the runtime) is recorded as a trace of calls,
  in program order. A publish on the bus is recorded with the error it returned.
\<close>

datatype event =
    LogInfo string
  | LogError string
  | LogTrace string "string list"
  | Client_IsConnected
  | Client_Connect
  | Client_Publish string byte bool "byte list"
  | Context_MarkAsPushed
  | LoadX509KeyPair_call string string
  | Bus_Subscribe "TopicChannel list"
  | Bus_Publish MessageEnvelope string "go_error option"
  | Runtime_ProcessEvent Context MessageEnvelope
  | Go_worker

section \<open>The MQTT export sender\<close>

subsection \<open>Store of configuration cells\<close>

record MqttConfig =
  qos :: byte
  retain :: bool
  autoreconnect :: bool

text \<open>
  \<open>*MqttConfig\<close> pointers: a store is the list of allocated cells, an address is an
  index into it, and \<open>None\<close> is the nil pointer. Reading through nil (or through an
  address that was never allocated) panics.
\<close>

type_synonym store = "MqttConfig list"
type_synonym ptr = "nat option"

datatype panic = NilPointerDereference

definition alloc :: "store \<Rightarrow> MqttConfig \<Rightarrow> nat \<times> store" where
  "alloc h c = (length h, h @ [c])"

definition deref :: "store \<Rightarrow> ptr \<Rightarrow> MqttConfig option" where
  "deref h p = (case p of None \<Rightarrow> None
                | Some a \<Rightarrow> if a < length h then Some (h ! a) else None)"

definition assign :: "store \<Rightarrow> nat \<Rightarrow> MqttConfig \<Rightarrow> store" where
  "assign h a c = h[a := c]"

definition NewMqttConfig :: "store \<Rightarrow> ptr \<times> store" where
  "NewMqttConfig h =
     (let (a, h1) = alloc h \<lparr>qos = 0, retain = False, autoreconnect = False\<rparr>
      in (Some a, h1))"

text \<open>
  The three setters have value receivers: a call \<open>p.SetQos(v)\<close> evaluates \<open>*p\<close>, copies
  it into the callee's own variable \<open>mqttConfig\<close> (a fresh cell), and the assignment in
  the body writes that cell. The store after the call still holds the callee's cell.
\<close>

definition SetRetain :: "store \<Rightarrow> ptr \<Rightarrow> bool \<Rightarrow> panic + store" where
  "SetRetain h p retain' =
     (case deref h p of
        None \<Rightarrow> Inl NilPointerDereference
      | Some c \<Rightarrow>
          (let (mqttConfig, h1) = alloc h c
           in Inr (assign h1 mqttConfig ((h1 ! mqttConfig)\<lparr>retain := retain'\<rparr>))))"

definition SetQos :: "store \<Rightarrow> ptr \<Rightarrow> byte \<Rightarrow> panic + store" where
  "SetQos h p qos' =
     (case deref h p of
        None \<Rightarrow> Inl NilPointerDereference
      | Some c \<Rightarrow>
          (let (mqttConfig, h1) = alloc h c
           in Inr (assign h1 mqttConfig ((h1 ! mqttConfig)\<lparr>qos := qos'\<rparr>))))"

definition SetAutoreconnect :: "store \<Rightarrow> ptr \<Rightarrow> bool \<Rightarrow> panic + store" where
  "SetAutoreconnect h p reconnect =
     (case deref h p of
        None \<Rightarrow> Inl NilPointerDereference
      | Some c \<Rightarrow>
          (let (mqttConfig, h1) = alloc h c
           in Inr (assign h1 mqttConfig ((h1 ! mqttConfig)\<lparr>autoreconnect := reconnect\<rparr>))))"

subsection \<open>The client and the sender\<close>

text \<open>
  The options handed to the paho client, as far as the constructor sets them. A broker
  added with \<open>AddBroker\<close> is recorded by the string that was passed.
\<close>

record tls_Config =
  ClientCAs :: "unit option"
  InsecureSkipVerify :: bool
  Certificates :: "string list"

record ClientOptions =
  Servers :: "string list"
  ClientID :: string
  Username :: string
  Password_opt :: string
  AutoReconnect :: bool
  TLSConfig :: "tls_Config option"

definition NewClientOptions :: ClientOptions where
  "NewClientOptions =
     \<lparr>Servers = [], ClientID = [], Username = [], Password_opt = [],
      AutoReconnect = True, TLSConfig = None\<rparr>"

text \<open>A client is identified by the options it was created from.\<close>

datatype MQTT_Client = NewClient ClientOptions

record MQTTSender =
  client :: MQTT_Client
  topic :: string
  opts :: MqttConfig

text \<open>
  A paho token: what \<open>Wait()\<close> returns and what \<open>Error()\<close> returns afterwards
  (\<open>None\<close> is nil).
\<close>

record token =
  Wait :: bool
  Error :: "go_error option"

text \<open>
  What the collaborators answer during one call of \<open>MQTTSend\<close>: the client's connection
  state, the token of a connect attempt, the token of a publish (which may depend on
  the arguments) and the result of the context's \<open>MarkAsPushed\<close>.
\<close>

record mqtt_env =
  answer_IsConnected :: bool
  answer_Connect :: token
  answer_Publish :: "string \<Rightarrow> byte \<Rightarrow> bool \<Rightarrow> byte list \<Rightarrow> token"
  answer_MarkAsPushed :: "go_error option"

subsection \<open>MQTTSend\<close>

text \<open>
  Lines 84 to 100 of the sender: the type assertion on the first parameter, the
  publish and the retention mark. \<open>evs\<close> is the trace so far. The caller has checked
  that \<open>params\<close> is not empty.
\<close>

definition MQTTSend_publish ::
  "MQTTSender \<Rightarrow> Context \<Rightarrow> mqtt_env \<Rightarrow> iface \<Rightarrow> event list \<Rightarrow> (bool \<times> iface) \<times> event list" where
  "MQTTSend_publish sender edgexcontext env p0 evs =
     (case p0 of
        IString data \<Rightarrow>
          (let payload = bytes_of_string data;
               tok = answer_Publish env (topic sender) (qos (opts sender)) (retain (opts sender)) payload;
               evs1 = evs @ [Client_Publish (topic sender) (qos (opts sender)) (retain (opts sender)) payload]
           in case Error tok of
                Some e \<Rightarrow> ((False, IError e), evs1)
              | None \<Rightarrow>
                  (let evs2 = evs1 @ [LogInfo ''Sent data to MQTT Broker'',
                                      LogTrace ''Data exported''
                                        [''Transport'', ''MQTT'', CorrelationHeader, CorrelationID edgexcontext],
                                      Context_MarkAsPushed]
                   in case answer_MarkAsPushed env of
                        Some err \<Rightarrow> ((True, INil), evs2 @ [LogError (Error_msg err)])
                      | None \<Rightarrow> ((True, INil), evs2)))
      | _ \<Rightarrow> ((False, IError (errors_New ''Unexpected type received'')), evs))"

text \<open>
  \<open>fmt.Errorf\<close> with a format that ends in its only verb \<open>%s\<close>: the message is the
  text of the format before the verb, followed by the argument.
\<close>

definition fmt_Errorf :: "string \<Rightarrow> string \<Rightarrow> go_error" where
  "fmt_Errorf before_verb arg = ErrorString (before_verb @ arg)"

definition MQTTSend ::
  "MQTTSender \<Rightarrow> Context \<Rightarrow> mqtt_env \<Rightarrow> iface list \<Rightarrow> (bool \<times> iface) \<times> event list" where
  "MQTTSend sender edgexcontext env params =
     (if length params < 1 then ((False, IError (errors_New ''No Data Received'')), [])
      else if \<not> answer_IsConnected env then
        (let evs = [Client_IsConnected, LogInfo ''Connecting to mqtt server'', Client_Connect];
             tok = answer_Connect env;
             connected = MQTTSend_publish sender edgexcontext env (hd params)
                           (evs @ [LogInfo ''Connected to mqtt server''])
         in if Wait tok then
              (case Error tok of
                 Some e \<Rightarrow>
                   ((False, IError (fmt_Errorf
                       ''Could not connect to mqtt server, drop event. Error: '' (Error_msg e))),
                    evs)
               | None \<Rightarrow> connected)
            else connected)
      else MQTTSend_publish sender edgexcontext env (hd params) [Client_IsConnected])"

text \<open>The type assertion \<open>params[0].(string)\<close> succeeds on these values only.\<close>

fun is_IString :: "iface \<Rightarrow> bool" where
  "is_IString (IString data) = True"
| "is_IString _ = False"

text \<open>Predicates on traces.\<close>

fun is_publish :: "event \<Rightarrow> bool" where
  "is_publish (Client_Publish t q r d) = True"
| "is_publish _ = False"

definition publish_attempted :: "event list \<Rightarrow> bool" where
  "publish_attempted evs = list_ex is_publish evs"

definition connect_attempted :: "event list \<Rightarrow> bool" where
  "connect_attempted evs = (Client_Connect \<in> set evs)"


text \<open>
  A connect attempt comes before any publish attempt: no publish stands in the part of
  the trace before the first connect.
\<close>

definition connect_before_publish :: "event list \<Rightarrow> bool" where
  "connect_before_publish evs =
     (\<not> list_ex is_publish (takeWhile (\<lambda>e. e \<noteq> Client_Connect) evs))"

subsection \<open>NewMQTTSender\<close>

text \<open>
  \<open>strings.ToLower\<close>. On a string of ASCII bytes alone the library adds
  \<open>'a' - 'A'\<close> to every byte from \<open>'A'\<close> to \<open>'Z'\<close> and keeps the other bytes. Any other
  string is handed to \<open>strings.Map(unicode.ToLower, s)\<close>, which decodes the string and
  looks every code point up in the Unicode case tables of the standard library; that
  mapping stands here as the parameter \<open>unicode_lower\<close>.
\<close>

definition is_ASCII :: "string \<Rightarrow> bool" where
  "is_ASCII s = list_all (\<lambda>c. (of_char c :: nat) < 128) s"

definition lower_char :: "char \<Rightarrow> char" where
  "lower_char c =
     (let n = (of_char c :: nat) in if 65 \<le> n \<and> n \<le> 90 then char_of (n + 32) else c)"

definition ToLower :: "(string \<Rightarrow> string) \<Rightarrow> string \<Rightarrow> string" where
  "ToLower unicode_lower s = (if is_ASCII s then map lower_char s else unicode_lower s)"

text \<open>\<open>strconv.Itoa\<close>: the decimal digits of an integer, with a minus sign when negative.\<close>

definition digit_char :: "nat \<Rightarrow> char" where
  "digit_char d = char_of (48 + d)"

function decimal :: "nat \<Rightarrow> string" where
  "decimal n = (if n < 10 then [digit_char n] else decimal (n div 10) @ [digit_char (n mod 10)])"
  by pat_completeness auto
termination
  by (relation "measure id") auto

declare decimal.simps [simp del]

definition Itoa :: "int \<Rightarrow> string" where
  "Itoa i = (if i < 0 then CHR ''-'' # decimal (nat (- i)) else decimal (nat i))"

text \<open>The fields of \<open>models.Addressable\<close> that the constructor reads.\<close>

record Addressable =
  Protocol :: string
  Address :: string
  Port :: int
  Path :: string
  Publisher :: string
  User :: string
  Password :: string
  Topic :: string

fun client_options :: "MQTT_Client \<Rightarrow> ClientOptions" where
  "client_options (NewClient opt) = opt"

text \<open>
  The constructor. \<open>unicode_lower\<close> is the Unicode mapping of \<open>strings.ToLower\<close>.
  \<open>LoadX509KeyPair\<close> stands for the file system: it answers the load
  of a certificate file and a key file with an error or with the certificate. \<open>config\<close>
  is a pointer into the store \<open>h\<close>; it is first read at \<open>config.autoreconnect\<close>. The
  result \<open>None\<close> is the nil sender. The logging client is a collaborator: its calls are
  in the trace.
\<close>

definition NewMQTTSender ::
  "(string \<Rightarrow> string) \<Rightarrow> (string \<Rightarrow> string \<Rightarrow> go_error + string) \<Rightarrow> Addressable \<Rightarrow>
   string \<Rightarrow> string \<Rightarrow> store \<Rightarrow> ptr \<Rightarrow> panic + (MQTTSender option \<times> event list)" where
  "NewMQTTSender unicode_lower LoadX509KeyPair addr certFile key h config =
     (let protocol = ToLower unicode_lower (Protocol addr);
          o0 = NewClientOptions;
          broker = protocol @ ''://'' @ Address addr @ '':'' @ Itoa (Port addr) @ Path addr;
          o1 = o0\<lparr>Servers := Servers o0 @ [broker]\<rparr>;
          o2 = o1\<lparr>ClientID := Publisher addr\<rparr>;
          o3 = o2\<lparr>Username := User addr\<rparr>;
          o4 = o3\<lparr>Password_opt := Password addr\<rparr>
      in case deref h config of
           None \<Rightarrow> Inl NilPointerDereference
         | Some c \<Rightarrow>
             (let o5 = o4\<lparr>AutoReconnect := autoreconnect c\<rparr>
              in if protocol = ''tcps'' \<or> protocol = ''ssl'' \<or> protocol = ''tls'' then
                   (case LoadX509KeyPair certFile key of
                      Inl err \<Rightarrow>
                        Inr (None, [LoadX509KeyPair_call certFile key,
                                    LogError ''Failed loading x509 data''])
                    | Inr cert \<Rightarrow>
                        (let tlsConfig = \<lparr>ClientCAs = None, InsecureSkipVerify = True,
                                          Certificates = [cert]\<rparr>;
                             o6 = o5\<lparr>TLSConfig := Some tlsConfig\<rparr>
                         in Inr (Some \<lparr>client = NewClient o6, topic = Topic addr, opts = c\<rparr>,
                                 [LoadX509KeyPair_call certFile key])))
                 else Inr (Some \<lparr>client = NewClient o5, topic = Topic addr, opts = c\<rparr>, [])))"

text \<open>
  The endpoint in the specification's words, to compare the constructor with. The
  lower-case form of an ASCII string is read off the two alphabets, letter by letter;
  the lower-case form of any other string is what the Unicode mapping returns.
\<close>

definition capital_letters :: string where
  "capital_letters = ''ABCDEFGHIJKLMNOPQRSTUVWXYZ''"

definition small_letters :: string where
  "small_letters = ''abcdefghijklmnopqrstuvwxyz''"

definition lowercase_letter :: "char \<Rightarrow> char" where
  "lowercase_letter c =
     (case map_of (zip capital_letters small_letters) c of Some l \<Rightarrow> l | None \<Rightarrow> c)"

definition lowercase :: "(string \<Rightarrow> string) \<Rightarrow> string \<Rightarrow> string" where
  "lowercase unicode_lower s = (if is_ASCII s then map lowercase_letter s else unicode_lower s)"

text \<open>
  A string is the decimal numeral of an integer when reading its digits from the left
  gives the integer: it is a non-empty row of digits without a leading zero (the
  single digit zero apart), with a minus sign in front when the integer is negative.
\<close>

definition is_digit :: "char \<Rightarrow> bool" where
  "is_digit c = (48 \<le> (of_char c :: nat) \<and> (of_char c :: nat) \<le> 57)"

definition digit_value :: "char \<Rightarrow> nat" where
  "digit_value c = of_char c - 48"

definition read_digits :: "string \<Rightarrow> nat" where
  "read_digits s = foldl (\<lambda>a c. 10 * a + digit_value c) 0 s"

definition numeral_nat :: "string \<Rightarrow> bool" where
  "numeral_nat s = (s \<noteq> [] \<and> list_all is_digit s \<and> (length s = 1 \<or> hd s \<noteq> CHR ''0''))"

definition decimal_numeral_of :: "int \<Rightarrow> string \<Rightarrow> bool" where
  "decimal_numeral_of i s =
     (if s \<noteq> [] \<and> hd s = CHR ''-''
      then numeral_nat (tl s) \<and> read_digits (tl s) \<noteq> 0 \<and> i = - int (read_digits (tl s))
      else numeral_nat s \<and> i = int (read_digits s))"

text \<open>A client program's calls of the setters on one configuration, in order.\<close>

datatype setter_call = Call_SetQos byte | Call_SetRetain bool | Call_SetAutoreconnect bool

fun call_setter :: "store \<Rightarrow> ptr \<Rightarrow> setter_call \<Rightarrow> panic + store" where
  "call_setter h p (Call_SetQos v) = SetQos h p v"
| "call_setter h p (Call_SetRetain v) = SetRetain h p v"
| "call_setter h p (Call_SetAutoreconnect v) = SetAutoreconnect h p v"

fun call_setters :: "store \<Rightarrow> ptr \<Rightarrow> setter_call list \<Rightarrow> panic + store" where
  "call_setters h p [] = Inr h"
| "call_setters h p (c # cs) =
     (case call_setter h p c of Inl e \<Rightarrow> Inl e | Inr h1 \<Rightarrow> call_setters h1 p cs)"

section \<open>The message bus trigger\<close>

text \<open>
  The bus client and the runtime act on a world outside the trigger (the broker, the
  pipeline's own state), of some type \<open>'w\<close> that is threaded through their calls, so
  that their answers may depend on everything that happened before.
\<close>

record 'w MessageClient =
  Publish :: "'w \<Rightarrow> MessageEnvelope \<Rightarrow> string \<Rightarrow> go_error option \<times> 'w"
  Subscribe :: "'w \<Rightarrow> TopicChannel list \<Rightarrow> go_error option \<times> 'w"

text \<open>
  The trigger. \<open>Runtime\<close> is the pipeline runtime by its \<open>ProcessEvent\<close>, which receives
  the context by reference and may change it. \<open>client_t\<close> is nil (\<open>None\<close>) until
  \<open>Initialize\<close> stores a client. The logging client and the event client are
  collaborators.
\<close>

record 'w Trigger =
  Configuration_t :: ConfigurationStruct
  Runtime :: "'w \<Rightarrow> Context \<Rightarrow> MessageEnvelope \<Rightarrow> Context \<times> 'w"
  client_t :: "'w MessageClient option"
  topics :: "TopicChannel list"

text \<open>What the worker's \<open>select\<close> reads: an error notification or an arrival.\<close>

datatype delivery = MessageError go_error | Messages MessageEnvelope

text \<open>The context that the worker builds for an arrival (lines 65 to 70).\<close>

definition new_edgexContext :: "'w Trigger \<Rightarrow> MessageEnvelope \<Rightarrow> Context" where
  "new_edgexContext trigger msgs =
     \<lparr>EventID = [], EventChecksum = [], CorrelationID = CorrelationID_msg msgs,
      Configuration = Configuration_t trigger, OutputData = None\<rparr>"

text \<open>
  One turn of the worker's loop (lines 59 to 85): the body of the \<open>select\<close> for the
  delivery that became ready. Calling \<open>Publish\<close> on a nil client panics.
\<close>

definition receive :: "'w Trigger \<Rightarrow> delivery \<Rightarrow> 'w \<Rightarrow> panic + ('w \<times> event list)" where
  "receive trigger d w =
     (case d of
        MessageError msgErr \<Rightarrow>
          Inr (w, [LogError (''Failed to receive ZMQ Message, '' @ Error_msg msgErr)])
      | Messages msgs \<Rightarrow>
          (let publishTopic = PublishTopic (Binding (Configuration_t trigger));
               evs = [LogTrace ''Received message from bus''
                        [''topic'', publishTopic, CorrelationHeader, CorrelationID_msg msgs]];
               edgexContext0 = new_edgexContext trigger msgs;
               (edgexContext, w1) = Runtime trigger w edgexContext0 msgs;
               evs1 = evs @ [Runtime_ProcessEvent edgexContext0 msgs]
           in case OutputData edgexContext of
                None \<Rightarrow> Inr (w1, evs1)
              | Some outputData \<Rightarrow>
                  (let outputEnvelope =
                         \<lparr>CorrelationID_msg = CorrelationID edgexContext,
                          Payload = outputData,
                          ContentType = ContentTypeJSON\<rparr>
                   in case client_t trigger of
                        None \<Rightarrow> Inl NilPointerDereference
                      | Some c \<Rightarrow>
                          (let (err, w2) = Publish c w1 outputEnvelope publishTopic;
                               evs2 = evs1 @ [Bus_Publish outputEnvelope publishTopic err];
                               evs3 = (case err of
                                         Some e \<Rightarrow>
                                           evs2 @ [LogError (''Failed to publish Message to bus, ''
                                                              @ Error_msg e)]
                                       | None \<Rightarrow> evs2)
                           in Inr (w2, evs3 @ [LogTrace ''Published message to bus''
                                 [''topic'', publishTopic, CorrelationHeader,
                                  CorrelationID_msg msgs]])))))"

text \<open>
  The worker (lines 57 to 87), run on the deliveries that become ready, in order.
  \<open>receiveMessage\<close> is the loop's condition; no statement assigns it. When the
  deliveries are used up the worker is blocked in the \<open>select\<close>.
\<close>

datatype worker_status = Waiting | Stopped | Panicked

fun worker ::
  "'w Trigger \<Rightarrow> bool \<Rightarrow> delivery list \<Rightarrow> 'w \<Rightarrow> worker_status \<times> 'w \<times> event list" where
  "worker trigger receiveMessage [] w = (if receiveMessage then Waiting else Stopped, w, [])"
| "worker trigger receiveMessage (d # ds) w =
     (if receiveMessage then
        (case receive trigger d w of
           Inl p \<Rightarrow> (Panicked, w, [])
         | Inr (w1, evs) \<Rightarrow>
             (let (st, w2, evs2) = worker trigger receiveMessage ds w1
              in (st, w2, evs @ evs2)))
      else (Stopped, w, []))"

text \<open>
  \<open>Initialize\<close> (lines 43 to 90). \<open>NewMessageClient\<close> stands for the messaging
  library's constructor. The call of \<open>Subscribe\<close> is an expression statement: what it
  returns is dropped. The worker is started (\<open>Go_worker\<close>) and nil is returned.
\<close>

definition Initialize ::
  "'w Trigger \<Rightarrow> (MessageBusConfig \<Rightarrow> go_error + 'w MessageClient) \<Rightarrow> 'w \<Rightarrow>
   go_error option \<times> 'w Trigger \<times> 'w \<times> event list" where
  "Initialize trigger NewMessageClient w =
     (let binding = Binding (Configuration_t trigger);
          evs = [LogInfo (''Initializing Message Bus Trigger. Subscribing to topic: ''
                          @ SubscribeTopic binding @ '', Publish Topic: '' @ PublishTopic binding)]
      in case NewMessageClient (MessageBus (Configuration_t trigger)) of
           Inl err \<Rightarrow> (Some err, trigger\<lparr>client_t := None\<rparr>, w, evs)
         | Inr c \<Rightarrow>
             (let trigger1 = trigger\<lparr>client_t := Some c\<rparr>;
                  trigger2 = trigger1\<lparr>topics := [\<lparr>Topic_ch = SubscribeTopic binding\<rparr>]\<rparr>;
                  (dropped, w1) = Subscribe c w (topics trigger2)
              in (None, trigger2, w1, evs @ [Bus_Subscribe (topics trigger2), Go_worker])))"

text \<open>Readings of a worker's trace and of its deliveries.\<close>

fun is_bus_publish :: "event \<Rightarrow> bool" where
  "is_bus_publish (Bus_Publish e t r) = True"
| "is_bus_publish _ = False"

fun processed :: "event list \<Rightarrow> MessageEnvelope list" where
  "processed [] = []"
| "processed (Runtime_ProcessEvent c m # evs) = m # processed evs"
| "processed (e # evs) = processed evs"

fun arrivals :: "delivery list \<Rightarrow> MessageEnvelope list" where
  "arrivals [] = []"
| "arrivals (Messages m # ds) = m # arrivals ds"
| "arrivals (MessageError e # ds) = arrivals ds"

fun error_notifications :: "delivery list \<Rightarrow> go_error list" where
  "error_notifications [] = []"
| "error_notifications (MessageError e # ds) = e # error_notifications ds"
| "error_notifications (Messages m # ds) = error_notifications ds"

section \<open>Example inputs\<close>

definition example_config :: ConfigurationStruct where
  "example_config =
     \<lparr>Binding = \<lparr>SubscribeTopic = ''events'', PublishTopic = ''out''\<rparr>,
      MessageBus = MessageBusConfig ''zero''\<rparr>"

definition example_context :: Context where
  "example_context =
     \<lparr>EventID = ''e1'', EventChecksum = [], CorrelationID = ''abc-123'',
      Configuration = example_config, OutputData = None\<rparr>"

definition example_sender :: MQTTSender where
  "example_sender =
     \<lparr>client = NewClient NewClientOptions, topic = ''telemetry'',
      opts = \<lparr>qos = 0, retain = False, autoreconnect = False\<rparr>\<rparr>"

definition token_ok :: token where
  "token_ok = \<lparr>Wait = True, Error = None\<rparr>"

definition token_failed :: "string \<Rightarrow> token" where
  "token_failed msg = \<lparr>Wait = True, Error = Some (ErrorString msg)\<rparr>"

text \<open>
  A connected client whose publish succeeds while the retention mark fails; a connected
  client whose publish fails; a client that is not connected and cannot connect.
\<close>

definition env_mark_fails :: mqtt_env where
  "env_mark_fails =
     \<lparr>answer_IsConnected = True, answer_Connect = token_ok,
      answer_Publish = (\<lambda>t q r d. token_ok),
      answer_MarkAsPushed = Some (ErrorString ''store down'')\<rparr>"

definition env_publish_fails :: mqtt_env where
  "env_publish_fails =
     \<lparr>answer_IsConnected = True, answer_Connect = token_ok,
      answer_Publish = (\<lambda>t q r d. token_failed ''not acknowledged''),
      answer_MarkAsPushed = None\<rparr>"

definition env_connect_fails :: mqtt_env where
  "env_connect_fails =
     \<lparr>answer_IsConnected = False, answer_Connect = token_failed ''refused'',
      answer_Publish = (\<lambda>t q r d. token_ok),
      answer_MarkAsPushed = None\<rparr>"

text \<open>
  Broker addresses; a file system on which no certificate can be read; the store after
  \<open>NewMqttConfig\<close> on the empty store.
\<close>

definition example_addr :: Addressable where
  "example_addr =
     \<lparr>Protocol = ''tcp'', Address = ''1.2.3.4'', Port = 1883, Path = [],
      Publisher = ''pub'', User = ''u'', Password = ''p'', Topic = ''telemetry''\<rparr>"

definition example_tls_addr :: Addressable where
  "example_tls_addr = example_addr\<lparr>Protocol := ''TLS'', Port := 8883\<rparr>"

definition unreadable :: "string \<Rightarrow> string \<Rightarrow> go_error + string" where
  "unreadable certFile key = Inl (ErrorString ''open: no such file or directory'')"

definition readable :: "string \<Rightarrow> string \<Rightarrow> go_error + string" where
  "readable certFile key = Inr ''certificate''"

text \<open>
  A Unicode mapping that knows one capital letter: the bytes \<open>C3 89\<close> (capital E with
  acute accent) become \<open>C3 A9\<close> (the small letter); other strings are kept.
\<close>

definition example_unicode_lower :: "string \<Rightarrow> string" where
  "example_unicode_lower s = (if s = [CHR 0xC3, CHR 0x89] then [CHR 0xC3, CHR 0xA9] else s)"

definition default_config :: MqttConfig where
  "default_config = \<lparr>qos = 0, retain = False, autoreconnect = False\<rparr>"

text \<open>
  A bus client whose every publish and whose subscription fail, and one that accepts
  everything; a runtime that echoes the payload of the arrival as output, one that
  also overwrites the correlation id of the context, one that sets no output; a
  trigger.
\<close>

definition failing_client :: "unit MessageClient" where
  "failing_client =
     \<lparr>Publish = (\<lambda>w e t. (Some (ErrorString ''bus down''), w)),
      Subscribe = (\<lambda>w ts. (Some (ErrorString ''cannot subscribe''), w))\<rparr>"

definition accepting_client :: "unit MessageClient" where
  "accepting_client =
     \<lparr>Publish = (\<lambda>w e t. (None, w)), Subscribe = (\<lambda>w ts. (None, w))\<rparr>"

definition echo_runtime :: "unit \<Rightarrow> Context \<Rightarrow> MessageEnvelope \<Rightarrow> Context \<times> unit" where
  "echo_runtime w edgexcontext msgs = (edgexcontext\<lparr>OutputData := Some (Payload msgs)\<rparr>, w)"

definition relabel_runtime :: "unit \<Rightarrow> Context \<Rightarrow> MessageEnvelope \<Rightarrow> Context \<times> unit" where
  "relabel_runtime w edgexcontext msgs =
     (edgexcontext\<lparr>CorrelationID := ''changed'', OutputData := Some (Payload msgs)\<rparr>, w)"

definition silent_runtime :: "unit \<Rightarrow> Context \<Rightarrow> MessageEnvelope \<Rightarrow> Context \<times> unit" where
  "silent_runtime w edgexcontext msgs = (edgexcontext, w)"

definition example_trigger :: "unit Trigger" where
  "example_trigger =
     \<lparr>Configuration_t = example_config, Runtime = echo_runtime, client_t = None, topics = []\<rparr>"

definition example_msg :: "string \<Rightarrow> MessageEnvelope" where
  "example_msg cid = \<lparr>CorrelationID_msg = cid, Payload = [1, 2], ContentType = ''application/json''\<rparr>"

section \<open>Properties of MQTTSend\<close>

lemma MQTTSend_publish_is_string:
  "MQTTSend_publish sender edgexcontext env (IString data) evs =
     (let payload = bytes_of_string data;
          tok = answer_Publish env (topic sender) (qos (opts sender)) (retain (opts sender)) payload;
          evs1 = evs @ [Client_Publish (topic sender) (qos (opts sender)) (retain (opts sender)) payload]
      in case Error tok of
           Some e \<Rightarrow> ((False, IError e), evs1)
         | None \<Rightarrow>
             ((True, INil),
              evs1 @ [LogInfo ''Sent data to MQTT Broker'',
                      LogTrace ''Data exported''
                        [''Transport'', ''MQTT'', CorrelationHeader, CorrelationID edgexcontext],
                      Context_MarkAsPushed]
                   @ (case answer_MarkAsPushed env of
                        Some err \<Rightarrow> [LogError (Error_msg err)] | None \<Rightarrow> [])))"
  by (simp add: MQTTSend_publish_def Let_def split: option.splits)

lemma MQTTSend_publish_not_string:
  "\<not> is_IString p0 \<Longrightarrow>
   MQTTSend_publish sender edgexcontext env p0 evs =
     ((False, IError (errors_New ''Unexpected type received'')), evs)"
  by (cases p0) (simp_all add: MQTTSend_publish_def)

text \<open>
  C4. A call of \<open>MQTTSend\<close> with zero input values returns false together with the
  no-data error (whose message in the code reads \<open>No Data Received\<close>), and its trace is
  empty: the client is not asked whether it is connected, no connect attempt and no
  publish are made.
\<close>

theorem MQTTSend_no_data:
  "MQTTSend sender edgexcontext env [] = ((False, IError (errors_New ''No Data Received'')), [])
   \<and> \<not> connect_attempted (snd (MQTTSend sender edgexcontext env []))
   \<and> \<not> publish_attempted (snd (MQTTSend sender edgexcontext env []))"
  by (simp add: MQTTSend_def connect_attempted_def publish_attempted_def)

theorem MQTTSend_no_data_witness:
  "MQTTSend example_sender example_context env_connect_fails [] =
     ((False, IError (ErrorString ''No Data Received'')), [])"
  using MQTTSend_no_data [of example_sender example_context env_connect_fails]
  by (simp add: errors_New_def)

text \<open>
  C1. Take a call of \<open>MQTTSend\<close> whose first input is a string and in which the publish
  is attempted. If the publish token carries no error, \<open>MarkAsPushed\<close> is called exactly
  once and the call returns \<open>(true, nil)\<close>, whatever \<open>MarkAsPushed\<close> returns; if the
  publish token carries an error, \<open>MarkAsPushed\<close> is not called and the call returns
  false with that error.
\<close>

theorem MQTTSend_retention_mark:
  assumes "MQTTSend sender edgexcontext env (IString data # rest) = (r, evs)"
    and "publish_attempted evs"
    and "tok = answer_Publish env (topic sender) (qos (opts sender)) (retain (opts sender))
                 (bytes_of_string data)"
  shows "(Error tok = None \<longrightarrow>
            count_list evs Context_MarkAsPushed = 1 \<and> r = (True, INil))
       \<and> (\<forall>e. Error tok = Some e \<longrightarrow>
            count_list evs Context_MarkAsPushed = 0 \<and> r = (False, IError e))"
  using assms
  by (auto simp: MQTTSend_def MQTTSend_publish_is_string publish_attempted_def Let_def
           split: if_splits option.splits)

theorem MQTTSend_retention_mark_witness:
  "MQTTSend example_sender example_context env_mark_fails [IString ''reading''] =
     ((True, INil),
      [Client_IsConnected,
       Client_Publish ''telemetry'' 0 False (bytes_of_string ''reading''),
       LogInfo ''Sent data to MQTT Broker'',
       LogTrace ''Data exported'' [''Transport'', ''MQTT'', ''correlation-id'', ''abc-123''],
       Context_MarkAsPushed,
       LogError ''store down''])
   \<and> count_list (snd (MQTTSend example_sender example_context env_mark_fails
                         [IString ''reading''])) Context_MarkAsPushed = 1
   \<and> MQTTSend example_sender example_context env_publish_fails [IString ''reading''] =
     ((False, IError (ErrorString ''not acknowledged'')),
      [Client_IsConnected,
       Client_Publish ''telemetry'' 0 False (bytes_of_string ''reading'')])
   \<and> count_list (snd (MQTTSend example_sender example_context env_publish_fails
                         [IString ''reading''])) Context_MarkAsPushed = 0"
proof -
  let ?ok = "MQTTSend example_sender example_context env_mark_fails [IString ''reading'']"
  let ?ko = "MQTTSend example_sender example_context env_publish_fails [IString ''reading'']"
  have ok: "?ok = ((True, INil),
      [Client_IsConnected,
       Client_Publish ''telemetry'' 0 False (bytes_of_string ''reading''),
       LogInfo ''Sent data to MQTT Broker'',
       LogTrace ''Data exported'' [''Transport'', ''MQTT'', ''correlation-id'', ''abc-123''],
       Context_MarkAsPushed,
       LogError ''store down''])"
    by (simp add: MQTTSend_def MQTTSend_publish_is_string example_sender_def
        example_context_def env_mark_fails_def token_ok_def CorrelationHeader_def)
  have ko: "?ko = ((False, IError (ErrorString ''not acknowledged'')),
      [Client_IsConnected,
       Client_Publish ''telemetry'' 0 False (bytes_of_string ''reading'')])"
    by (simp add: MQTTSend_def MQTTSend_publish_is_string example_sender_def
        example_context_def env_publish_fails_def token_failed_def)
  have att_ok: "publish_attempted (snd ?ok)"
    by (simp add: ok publish_attempted_def)
  have att_ko: "publish_attempted (snd ?ko)"
    by (simp add: ko publish_attempted_def)
  have tok_ok: "Error (answer_Publish env_mark_fails (topic example_sender)
      (qos (opts example_sender)) (retain (opts example_sender)) (bytes_of_string ''reading'')) = None"
    by (simp add: env_mark_fails_def token_ok_def)
  have tok_ko: "Error (answer_Publish env_publish_fails (topic example_sender)
      (qos (opts example_sender)) (retain (opts example_sender)) (bytes_of_string ''reading''))
      = Some (ErrorString ''not acknowledged'')"
    by (simp add: env_publish_fails_def token_failed_def)
  from MQTTSend_retention_mark [OF surjective_pairing att_ok refl] tok_ok
  have c1: "count_list (snd ?ok) Context_MarkAsPushed = 1" by blast
  from MQTTSend_retention_mark [OF surjective_pairing att_ko refl] tok_ko
  have c0: "count_list (snd ?ko) Context_MarkAsPushed = 0" by blast
  from ok ko c1 c0 show ?thesis by simp
qed

text \<open>
  C3. Take a call of \<open>MQTTSend\<close> with at least one input value on a client that reports
  not connected. A connect attempt is made, and no publish attempt comes before it. If
  the connect attempt fails (the wait on its token returns and the token carries an
  error), no publish is attempted and the call returns false with an error whose
  message contains the message of the connect error.
\<close>

theorem MQTTSend_connect_first:
  assumes "params \<noteq> []"
    and "\<not> answer_IsConnected env"
    and "MQTTSend sender edgexcontext env params = (r, evs)"
  shows "connect_attempted evs \<and> connect_before_publish evs
       \<and> (\<forall>e. Wait (answer_Connect env) \<and> Error (answer_Connect env) = Some e \<longrightarrow>
            \<not> publish_attempted evs
            \<and> r = (False, IError (ErrorString
                  (''Could not connect to mqtt server, drop event. Error: '' @ Error_msg e))))"
proof (cases "hd params")
  case (IString data)
  with assms show ?thesis
    by (auto simp: MQTTSend_def MQTTSend_publish_is_string connect_attempted_def
        connect_before_publish_def publish_attempted_def fmt_Errorf_def Let_def
        split: option.splits if_splits)
qed (use assms in \<open>auto simp: MQTTSend_def MQTTSend_publish_not_string connect_attempted_def
        connect_before_publish_def publish_attempted_def fmt_Errorf_def Let_def
        split: option.splits if_splits\<close>)

theorem MQTTSend_connect_first_witness:
  "MQTTSend example_sender example_context env_connect_fails [IString ''reading''] =
     ((False, IError (ErrorString
         ''Could not connect to mqtt server, drop event. Error: refused'')),
      [Client_IsConnected, LogInfo ''Connecting to mqtt server'', Client_Connect])
   \<and> connect_attempted (snd (MQTTSend example_sender example_context env_connect_fails
                                [IString ''reading'']))
   \<and> \<not> publish_attempted (snd (MQTTSend example_sender example_context env_connect_fails
                                  [IString ''reading'']))"
proof -
  let ?c = "MQTTSend example_sender example_context env_connect_fails [IString ''reading'']"
  have nc: "\<not> answer_IsConnected env_connect_fails"
    by (simp add: env_connect_fails_def)
  have tok: "Wait (answer_Connect env_connect_fails)
           \<and> Error (answer_Connect env_connect_fails) = Some (ErrorString ''refused'')"
    by (simp add: env_connect_fails_def token_failed_def)
  have ne: "[IString ''reading''] \<noteq> []" by simp
  from MQTTSend_connect_first [OF ne nc surjective_pairing] tok
  have "connect_attempted (snd ?c) \<and> \<not> publish_attempted (snd ?c)
      \<and> fst ?c = (False, IError (ErrorString
                  (''Could not connect to mqtt server, drop event. Error: ''
                   @ Error_msg (ErrorString ''refused''))))"
    by blast
  moreover have "snd ?c = [Client_IsConnected, LogInfo ''Connecting to mqtt server'', Client_Connect]"
    by (simp add: MQTTSend_def env_connect_fails_def token_failed_def)
  ultimately show ?thesis by (simp add: prod_eq_iff)
qed

section \<open>Properties of the type assertion\<close>

text \<open>
  C5 (as amended). Take a call of \<open>MQTTSend\<close> with a first input value. If that value
  is not a string (a byte slice is not a string), no publish is attempted and the call
  returns false; when the client is connected, or the connect attempt does not fail,
  the error returned is the unexpected-type error (whose message in the code reads
  \<open>Unexpected type received\<close>). If the first input is a string, the call is not
  rejected for its type: when the client is connected, or the connect attempt does not
  fail, the publish is attempted.
\<close>

theorem MQTTSend_type_assertion:
  assumes "MQTTSend sender edgexcontext env (p0 # rest) = (r, evs)"
  shows "(\<not> is_IString p0 \<longrightarrow>
            \<not> publish_attempted evs \<and> fst r = False
            \<and> (answer_IsConnected env
                 \<or> \<not> (Wait (answer_Connect env) \<and> Error (answer_Connect env) \<noteq> None) \<longrightarrow>
               r = (False, IError (ErrorString ''Unexpected type received''))))
       \<and> (is_IString p0 \<longrightarrow>
            answer_IsConnected env
              \<or> \<not> (Wait (answer_Connect env) \<and> Error (answer_Connect env) \<noteq> None) \<longrightarrow>
            publish_attempted evs)"
proof (cases "is_IString p0")
  case True
  then obtain data where "p0 = IString data" by (cases p0) simp_all
  with assms show ?thesis
    by (auto simp: MQTTSend_def MQTTSend_publish_is_string publish_attempted_def Let_def
        split: option.splits if_splits)
next
  case False
  with assms show ?thesis
    by (auto simp: MQTTSend_def MQTTSend_publish_not_string publish_attempted_def Let_def
        errors_New_def split: option.splits if_splits)
qed

theorem MQTTSend_type_assertion_witness:
  "MQTTSend example_sender example_context env_mark_fails [IOther 7] =
     ((False, IError (ErrorString ''Unexpected type received'')), [Client_IsConnected])
   \<and> publish_attempted (snd (MQTTSend example_sender example_context env_mark_fails
                               [IString ''reading'']))"
proof -
  let ?a = "MQTTSend example_sender example_context env_mark_fails [IOther 7]"
  let ?b = "MQTTSend example_sender example_context env_mark_fails [IString ''reading'']"
  have conn: "answer_IsConnected env_mark_fails" by (simp add: env_mark_fails_def)
  have "fst ?a = (False, IError (ErrorString ''Unexpected type received''))"
    using MQTTSend_type_assertion [where sender = example_sender and env = env_mark_fails
        and edgexcontext = example_context and ?p0.0 = "IOther 7" and rest = "[]",
        OF surjective_pairing] conn by simp
  moreover have "snd ?a = [Client_IsConnected]"
    by (simp add: MQTTSend_def MQTTSend_publish_not_string env_mark_fails_def)
  moreover have "publish_attempted (snd ?b)"
    using MQTTSend_type_assertion [where sender = example_sender and env = env_mark_fails
        and edgexcontext = example_context and ?p0.0 = "IString ''reading''" and rest = "[]",
        OF surjective_pairing] conn by simp
  ultimately show ?thesis by (simp add: prod_eq_iff)
qed

theorem MQTTSend_type_assertion_counterexample:
  "MQTTSend example_sender example_context env_mark_fails [IBytes [1, 2, 3]] =
     ((False, IError (ErrorString ''Unexpected type received'')), [Client_IsConnected])
   \<and> MQTTSend example_sender example_context env_connect_fails [IOther 7] =
     ((False, IError (ErrorString
         ''Could not connect to mqtt server, drop event. Error: refused'')),
      [Client_IsConnected, LogInfo ''Connecting to mqtt server'', Client_Connect])"
  by (simp add: MQTTSend_def MQTTSend_publish_not_string env_mark_fails_def
      env_connect_fails_def token_failed_def errors_New_def fmt_Errorf_def)

section \<open>Properties of the constructor and of the configuration\<close>

lemma NewMQTTSender_opts:
  "NewMQTTSender ul L addr certFile key h config = Inr (Some s, evs) \<Longrightarrow>
   deref h config = Some (opts s)
   \<and> AutoReconnect (client_options (client s)) = autoreconnect (opts s)
   \<and> Servers (client_options (client s)) =
       [ToLower ul (Protocol addr) @ ''://'' @ Address addr @ '':'' @ Itoa (Port addr) @ Path addr]"
  by (auto simp: NewMQTTSender_def NewClientOptions_def Let_def
      split: option.splits if_splits sum.splits)

lemma ToLower_ASCII: "is_ASCII s \<Longrightarrow> ToLower ul s = map lower_char s"
  by (simp add: ToLower_def)

lemma ToLower_tcp: "ToLower ul ''tcp'' = ''tcp''"
proof -
  have "is_ASCII ''tcp''" by code_simp
  moreover have "map lower_char ''tcp'' = ''tcp''" by code_simp
  ultimately show ?thesis by (simp only: ToLower_ASCII)
qed

lemma ToLower_TLS: "ToLower ul ''TLS'' = ''tls''"
proof -
  have "is_ASCII ''TLS''" by code_simp
  moreover have "map lower_char ''TLS'' = ''tls''" by code_simp
  ultimately show ?thesis by (simp only: ToLower_ASCII)
qed

lemma Itoa_1883: "Itoa 1883 = ''1883''"
  by code_simp

lemma example_sender_built:
  "NewMQTTSender example_unicode_lower unreadable example_addr ''cert.pem'' ''key.pem'' [default_config] (Some 0) =
     Inr (Some \<lparr>client = NewClient
                   \<lparr>Servers = [''tcp://1.2.3.4:1883''], ClientID = ''pub'', Username = ''u'',
                    Password_opt = ''p'', AutoReconnect = False, TLSConfig = None\<rparr>,
                 topic = ''telemetry'', opts = default_config\<rparr>, [])"
  by (simp add: NewMQTTSender_def example_addr_def ToLower_tcp Itoa_1883 deref_def
      default_config_def NewClientOptions_def)

text \<open>The library's lower-casing of a byte agrees with the two alphabets.\<close>

lemma lower_char_table: "lower_char c = lowercase_letter c"
proof -
  have "\<forall>c. lower_char c = lowercase_letter c" by code_simp
  then show ?thesis by blast
qed

lemma ToLower_lowercase: "ToLower ul s = lowercase ul s"
  by (simp add: ToLower_def lowercase_def lower_char_table)

text \<open>The digits that \<open>decimal\<close> writes, read back.\<close>

lemma digit_char_value: "d < 10 \<Longrightarrow> is_digit (digit_char d) \<and> digit_value (digit_char d) = d"
  by (simp add: is_digit_def digit_value_def digit_char_def)

lemma digit_value_char: "is_digit c \<Longrightarrow> digit_char (digit_value c) = c \<and> digit_value c < 10"
  by (auto simp: is_digit_def digit_value_def digit_char_def)

lemma digit_zero: "is_digit c \<Longrightarrow> (c = CHR ''0'') = (digit_value c = 0)"
proof -
  assume d: "is_digit c"
  have "(c = CHR ''0'') = ((of_char c :: nat) = of_char (CHR ''0''))"
    by (simp only: of_char_eq_iff)
  also have "\<dots> = ((of_char c :: nat) = 48)" by simp
  also from d have "\<dots> = (digit_value c = 0)"
    by (auto simp: is_digit_def digit_value_def)
  finally show ?thesis .
qed

lemma read_digits_snoc: "read_digits (s @ [c]) = 10 * read_digits s + digit_value c"
  by (simp add: read_digits_def)

lemma foldl_digits_ge: "a \<le> foldl (\<lambda>a c. 10 * a + digit_value c) a s"
proof (induction s arbitrary: a)
  case Nil
  show ?case by simp
next
  case (Cons c s)
  have "a \<le> 10 * a + digit_value c" by simp
  also have "\<dots> \<le> foldl (\<lambda>a c. 10 * a + digit_value c) (10 * a + digit_value c) s"
    by (rule Cons.IH)
  finally show ?case by simp
qed

lemma read_digits_pos:
  assumes "s \<noteq> []" "list_all is_digit s" "hd s \<noteq> CHR ''0''"
  shows "0 < read_digits s"
proof -
  from assms(1) obtain c t where s: "s = c # t" by (cases s) auto
  with assms have "is_digit c" "c \<noteq> CHR ''0''" by simp_all
  then have "0 < digit_value c" using digit_zero [of c] by simp
  also have "digit_value c \<le> foldl (\<lambda>a c. 10 * a + digit_value c) (digit_value c) t"
    by (rule foldl_digits_ge)
  finally show ?thesis by (simp add: s read_digits_def)
qed

lemma decimal_numeral: "numeral_nat (decimal n) \<and> read_digits (decimal n) = n"
proof (induction n rule: decimal.induct)
  case (1 n)
  show ?case
  proof (cases "n < 10")
    case True
    then show ?thesis
      using digit_char_value [of n]
      by (simp add: decimal.simps [of n] numeral_nat_def read_digits_def)
  next
    case False
    let ?s = "decimal (n div 10)"
    let ?c = "digit_char (n mod 10)"
    from 1 False have ih: "numeral_nat ?s" "read_digits ?s = n div 10" by simp_all
    have c: "is_digit ?c" "digit_value ?c = n mod 10"
      using digit_char_value [of "n mod 10"] by simp_all
    from False have pos: "0 < n div 10" by simp
    have hd: "hd ?s \<noteq> CHR ''0''"
    proof (cases "length ?s = 1")
      case True
      then obtain x where x: "?s = [x]" by (cases ?s) auto
      with ih have "is_digit x" "digit_value x = n div 10"
        by (simp_all add: numeral_nat_def read_digits_def)
      with pos have "x \<noteq> CHR ''0''" using digit_zero [of x] by simp
      with x show ?thesis by simp
    next
      case False
      with ih(1) show ?thesis by (simp add: numeral_nat_def)
    qed
    from ih(1) have ne: "?s \<noteq> []" by (simp add: numeral_nat_def)
    have "numeral_nat (?s @ [?c])"
      using ih(1) c(1) hd ne by (simp add: numeral_nat_def)
    moreover have "read_digits (?s @ [?c]) = n"
      by (simp add: read_digits_snoc ih(2) c(2))
    ultimately show ?thesis using False by (simp add: decimal.simps [of n])
  qed
qed

lemma numeral_nat_decimal: "numeral_nat s \<Longrightarrow> decimal (read_digits s) = s"
proof (induction s rule: rev_induct)
  case Nil
  then show ?case by (simp add: numeral_nat_def)
next
  case (snoc c t)
  from snoc.prems have c: "is_digit c" and t: "list_all is_digit t"
    by (simp_all add: numeral_nat_def)
  from digit_value_char [OF c] have dc: "digit_char (digit_value c) = c" "digit_value c < 10"
    by simp_all
  show ?case
  proof (cases "t = []")
    case True
    with dc show ?thesis
      by (simp add: read_digits_def decimal.simps [of "digit_value c"])
  next
    case False
    with snoc.prems have hd: "hd t \<noteq> CHR ''0''"
      by (cases t) (simp_all add: numeral_nat_def)
    with False t have nt: "numeral_nat t" by (simp add: numeral_nat_def)
    from read_digits_pos [OF False t hd] have pos: "0 < read_digits t" .
    let ?n = "10 * read_digits t + digit_value c"
    from pos have big: "\<not> ?n < 10" by simp
    from dc(2) have dv: "?n div 10 = read_digits t" "?n mod 10 = digit_value c" by simp_all
    have "decimal ?n = decimal (?n div 10) @ [digit_char (?n mod 10)]"
      using big by (simp add: decimal.simps [of ?n])
    also have "\<dots> = t @ [c]"
      by (simp only: dv snoc.IH [OF nt] dc(1))
    finally show ?thesis by (simp add: read_digits_snoc)
  qed
qed

lemma minus_not_digit: "is_digit c \<Longrightarrow> c \<noteq> CHR ''-''"
  by (auto simp: is_digit_def)

lemma Itoa_numeral: "decimal_numeral_of i (Itoa i)"
proof (cases "i < 0")
  case True
  with decimal_numeral [of "nat (- i)"] show ?thesis
    by (simp add: decimal_numeral_of_def Itoa_def)
next
  case False
  from decimal_numeral [of "nat i"] have n: "numeral_nat (decimal (nat i))"
    and r: "read_digits (decimal (nat i)) = nat i" by simp_all
  from n have "decimal (nat i) \<noteq> []" "is_digit (hd (decimal (nat i)))"
    by (cases "decimal (nat i)"; simp add: numeral_nat_def)+
  with minus_not_digit have "\<not> (decimal (nat i) \<noteq> [] \<and> hd (decimal (nat i)) = CHR ''-'')"
    by blast
  with False n r show ?thesis
    by (auto simp: decimal_numeral_of_def Itoa_def)
qed

lemma numeral_Itoa: "decimal_numeral_of i s \<Longrightarrow> s = Itoa i"
proof (cases "s \<noteq> [] \<and> hd s = CHR ''-''")
  case True
  assume "decimal_numeral_of i s"
  with True have n: "numeral_nat (tl s)" and nz: "read_digits (tl s) \<noteq> 0"
    and i: "i = - int (read_digits (tl s))"
    by (simp_all add: decimal_numeral_of_def)
  from True have s: "s = CHR ''-'' # tl s" by (cases s) simp_all
  from i nz have "i < 0" "nat (- i) = read_digits (tl s)" by simp_all
  then have "Itoa i = CHR ''-'' # decimal (read_digits (tl s))" by (simp add: Itoa_def)
  with numeral_nat_decimal [OF n] s show ?thesis by simp
next
  case False
  assume "decimal_numeral_of i s"
  with False have n: "numeral_nat s" and i: "i = int (read_digits s)"
    by (simp_all add: decimal_numeral_of_def)
  from i have "Itoa i = decimal (read_digits s)" by (simp add: Itoa_def)
  with numeral_nat_decimal [OF n] show ?thesis by simp
qed

text \<open>
  C8. The sender that \<open>NewMQTTSender\<close> builds from a broker address has a client whose
  only broker is the lower-case form of the protocol, \<open>://\<close>, the address, a colon, the
  port and the path, where the port is written as the decimal numeral of the port number
  (the one string that is such a numeral). The address \<open>{tcp, 1.2.3.4, 1883, ""}\<close> gives
  \<open>tcp://1.2.3.4:1883\<close>.
\<close>

theorem NewMQTTSender_endpoint:
  assumes "NewMQTTSender unicode_lower LoadX509KeyPair addr certFile key h config = Inr (Some s, evs)"
  shows "\<exists>port.
           Servers (client_options (client s)) =
             [lowercase unicode_lower (Protocol addr) @ ''://'' @ Address addr @ '':'' @ port
              @ Path addr]
         \<and> decimal_numeral_of (Port addr) port
         \<and> (\<forall>t. decimal_numeral_of (Port addr) t \<longrightarrow> t = port)"
proof -
  from NewMQTTSender_opts [OF assms]
  have "Servers (client_options (client s)) =
          [lowercase unicode_lower (Protocol addr) @ ''://'' @ Address addr @ '':''
           @ Itoa (Port addr) @ Path addr]"
    by (simp add: ToLower_lowercase)
  moreover have "decimal_numeral_of (Port addr) (Itoa (Port addr))"
    by (rule Itoa_numeral)
  moreover have "\<forall>t. decimal_numeral_of (Port addr) t \<longrightarrow> t = Itoa (Port addr)"
    using numeral_Itoa by blast
  ultimately show ?thesis by blast
qed

theorem NewMQTTSender_endpoint_witness:
  "(\<exists>s evs. NewMQTTSender example_unicode_lower unreadable
            \<lparr>Protocol = ''tcp'', Address = ''1.2.3.4'', Port = 1883, Path = [],
             Publisher = ''pub'', User = ''u'', Password = ''p'', Topic = ''telemetry''\<rparr>
            ''cert.pem'' ''key.pem'' [default_config] (Some 0) = Inr (Some s, evs)
        \<and> Servers (client_options (client s)) = [''tcp://1.2.3.4:1883''])
   \<and> (\<exists>s evs. NewMQTTSender example_unicode_lower readable
            (example_addr\<lparr>Protocol := ''SSL'', Address := ''broker.local'', Port := 8883,
                           Path := ''/mqtt''\<rparr>)
            ''cert.pem'' ''key.pem'' [default_config] (Some 0) = Inr (Some s, evs)
        \<and> Servers (client_options (client s)) = [''ssl://broker.local:8883/mqtt''])
   \<and> (\<exists>s evs. NewMQTTSender example_unicode_lower unreadable
            (example_addr\<lparr>Protocol := ''Ws'', Address := ''h'', Port := 0, Path := ''/x''\<rparr>)
            ''cert.pem'' ''key.pem'' [default_config] (Some 0) = Inr (Some s, evs)
        \<and> Servers (client_options (client s)) = [''ws://h:0/x''])
   \<and> (\<exists>s evs. NewMQTTSender example_unicode_lower unreadable
            (example_addr\<lparr>Protocol := ''TCP'', Address := ''h'', Port := - 70\<rparr>)
            ''cert.pem'' ''key.pem'' [default_config] (Some 0) = Inr (Some s, evs)
        \<and> Servers (client_options (client s)) = [''tcp://h:-70''])
   \<and> (\<exists>s evs. NewMQTTSender example_unicode_lower unreadable
            (example_addr\<lparr>Protocol := [CHR 0xC3, CHR 0x89], Address := ''h'', Port := 10\<rparr>)
            ''cert.pem'' ''key.pem'' [default_config] (Some 0) = Inr (Some s, evs)
        \<and> Servers (client_options (client s)) = [[CHR 0xC3, CHR 0xA9] @ ''://h:10''])"
proof -
  have step: "\<exists>s evs. NewMQTTSender ul L a cf k h p = Inr (Some s, evs)
                \<and> Servers (client_options (client s)) =
                    [pr @ ''://'' @ Address a @ '':'' @ pt @ Path a]"
    if built: "\<exists>s evs. NewMQTTSender ul L a cf k h p = Inr (Some s, evs)"
      and pr: "lowercase ul (Protocol a) = pr"
      and pt: "decimal_numeral_of (Port a) pt"
    for ul L a cf k h p pr pt
  proof -
    from built obtain s evs where b: "NewMQTTSender ul L a cf k h p = Inr (Some s, evs)"
      by blast
    from NewMQTTSender_endpoint [OF b] obtain port
      where "Servers (client_options (client s)) =
               [lowercase ul (Protocol a) @ ''://'' @ Address a @ '':'' @ port @ Path a]"
        and "\<forall>t. decimal_numeral_of (Port a) t \<longrightarrow> t = port"
      by blast
    with pr pt have "Servers (client_options (client s)) =
                       [pr @ ''://'' @ Address a @ '':'' @ pt @ Path a]"
      by auto
    with b show ?thesis by blast
  qed
  have cfg: "deref [default_config] (Some 0) = Some default_config"
    by (simp add: deref_def)
  let ?a1 = "\<lparr>Protocol = ''tcp'', Address = ''1.2.3.4'', Port = 1883, Path = [],
             Publisher = ''pub'', User = ''u'', Password = ''p'', Topic = ''telemetry''\<rparr>"
  let ?a2 = "example_addr\<lparr>Protocol := ''SSL'', Address := ''broker.local'', Port := 8883,
                           Path := ''/mqtt''\<rparr>"
  let ?a3 = "example_addr\<lparr>Protocol := ''Ws'', Address := ''h'', Port := 0, Path := ''/x''\<rparr>"
  let ?a4 = "example_addr\<lparr>Protocol := ''TCP'', Address := ''h'', Port := - 70\<rparr>"
  let ?a5 = "example_addr\<lparr>Protocol := [CHR 0xC3, CHR 0x89], Address := ''h'', Port := 10\<rparr>"
  have l1: "lowercase example_unicode_lower ''tcp'' = ''tcp''" by code_simp
  have l2: "lowercase example_unicode_lower ''SSL'' = ''ssl''" by code_simp
  have l3: "lowercase example_unicode_lower ''Ws'' = ''ws''" by code_simp
  have l4: "lowercase example_unicode_lower ''TCP'' = ''tcp''" by code_simp
  have l5: "lowercase example_unicode_lower [CHR 0xC3, CHR 0x89] = [CHR 0xC3, CHR 0xA9]"
    by code_simp
  have n1: "decimal_numeral_of 1883 ''1883''" by code_simp
  have n2: "decimal_numeral_of 8883 ''8883''" by code_simp
  have n3: "decimal_numeral_of 0 ''0''" by code_simp
  have n4: "decimal_numeral_of (- 70) ''-70''" by code_simp
  have n5: "decimal_numeral_of 10 ''10''" by code_simp
  have b1: "\<exists>s evs. NewMQTTSender example_unicode_lower unreadable ?a1
               ''cert.pem'' ''key.pem'' [default_config] (Some 0) = Inr (Some s, evs)"
    by (simp add: NewMQTTSender_def cfg ToLower_lowercase l1)
  have b2: "\<exists>s evs. NewMQTTSender example_unicode_lower readable ?a2
               ''cert.pem'' ''key.pem'' [default_config] (Some 0) = Inr (Some s, evs)"
    by (simp add: NewMQTTSender_def cfg ToLower_lowercase l2 readable_def example_addr_def)
  have b3: "\<exists>s evs. NewMQTTSender example_unicode_lower unreadable ?a3
               ''cert.pem'' ''key.pem'' [default_config] (Some 0) = Inr (Some s, evs)"
    by (simp add: NewMQTTSender_def cfg ToLower_lowercase l3 example_addr_def)
  have b4: "\<exists>s evs. NewMQTTSender example_unicode_lower unreadable ?a4
               ''cert.pem'' ''key.pem'' [default_config] (Some 0) = Inr (Some s, evs)"
    by (simp add: NewMQTTSender_def cfg ToLower_lowercase l4 example_addr_def)
  have b5: "\<exists>s evs. NewMQTTSender example_unicode_lower unreadable ?a5
               ''cert.pem'' ''key.pem'' [default_config] (Some 0) = Inr (Some s, evs)"
    by (simp add: NewMQTTSender_def cfg ToLower_lowercase l5 example_addr_def)
  from step [OF b1, of "''tcp''" "''1883''"] l1 n1
  have w1: "\<exists>s evs. NewMQTTSender example_unicode_lower unreadable ?a1
               ''cert.pem'' ''key.pem'' [default_config] (Some 0) = Inr (Some s, evs)
        \<and> Servers (client_options (client s)) = [''tcp://1.2.3.4:1883'']"
    by simp
  from step [OF b2, of "''ssl''" "''8883''"] l2 n2
  have w2: "\<exists>s evs. NewMQTTSender example_unicode_lower readable ?a2
               ''cert.pem'' ''key.pem'' [default_config] (Some 0) = Inr (Some s, evs)
        \<and> Servers (client_options (client s)) = [''ssl://broker.local:8883/mqtt'']"
    by (simp add: example_addr_def)
  from step [OF b3, of "''ws''" "''0''"] l3 n3
  have w3: "\<exists>s evs. NewMQTTSender example_unicode_lower unreadable ?a3
               ''cert.pem'' ''key.pem'' [default_config] (Some 0) = Inr (Some s, evs)
        \<and> Servers (client_options (client s)) = [''ws://h:0/x'']"
    by (simp add: example_addr_def)
  from step [OF b4, of "''tcp''" "''-70''"] l4 n4
  have w4: "\<exists>s evs. NewMQTTSender example_unicode_lower unreadable ?a4
               ''cert.pem'' ''key.pem'' [default_config] (Some 0) = Inr (Some s, evs)
        \<and> Servers (client_options (client s)) = [''tcp://h:-70'']"
    by (simp add: example_addr_def)
  from step [OF b5, of "[CHR 0xC3, CHR 0xA9]" "''10''"] l5 n5
  have w5: "\<exists>s evs. NewMQTTSender example_unicode_lower unreadable ?a5
               ''cert.pem'' ''key.pem'' [default_config] (Some 0) = Inr (Some s, evs)
        \<and> Servers (client_options (client s)) = [[CHR 0xC3, CHR 0xA9] @ ''://h:10'']"
    by (simp add: example_addr_def)
  from w1 w2 w3 w4 w5 show ?thesis by blast
qed

text \<open>
  C7. When the lower-cased protocol of the address is \<open>tcps\<close>, \<open>ssl\<close> or \<open>tls\<close> and
  the certificate and key cannot be loaded, \<open>NewMQTTSender\<close> produces no sender: with a
  valid configuration pointer it logs the failure and returns nil. For any other
  protocol, and a valid configuration pointer, no certificate is loaded (the trace is
  empty) and a sender is returned.
\<close>

theorem NewMQTTSender_certificate:
  "(ToLower unicode_lower (Protocol addr) \<in> {''tcps'', ''ssl'', ''tls''}
      \<and> LoadX509KeyPair certFile key = Inl err \<longrightarrow>
      (\<forall>s evs. NewMQTTSender unicode_lower LoadX509KeyPair addr certFile key h config \<noteq> Inr (Some s, evs))
      \<and> (deref h config = Some c \<longrightarrow>
           NewMQTTSender unicode_lower LoadX509KeyPair addr certFile key h config =
             Inr (None, [LoadX509KeyPair_call certFile key, LogError ''Failed loading x509 data''])))
   \<and> (ToLower unicode_lower (Protocol addr) \<notin> {''tcps'', ''ssl'', ''tls''}
        \<and> deref h config = Some c \<longrightarrow>
      (\<exists>s. NewMQTTSender unicode_lower LoadX509KeyPair addr certFile key h config = Inr (Some s, [])
           \<and> topic s = Topic addr \<and> opts s = c))"
  by (auto simp: NewMQTTSender_def Let_def split: option.splits)

theorem NewMQTTSender_certificate_witness:
  "NewMQTTSender example_unicode_lower unreadable example_tls_addr ''cert.pem'' ''key.pem'' [default_config] (Some 0) =
     Inr (None, [LoadX509KeyPair_call ''cert.pem'' ''key.pem'', LogError ''Failed loading x509 data''])
   \<and> (\<exists>s. NewMQTTSender example_unicode_lower unreadable example_addr ''cert.pem'' ''key.pem'' [default_config] (Some 0) =
            Inr (Some s, []))"
proof -
  have tls: "ToLower example_unicode_lower (Protocol example_tls_addr) \<in> {''tcps'', ''ssl'', ''tls''}"
    by (simp add: example_tls_addr_def example_addr_def ToLower_TLS)
  have tcp: "ToLower example_unicode_lower (Protocol example_addr) \<notin> {''tcps'', ''ssl'', ''tls''}"
    by (simp add: example_addr_def ToLower_tcp)
  have ld: "unreadable ''cert.pem'' ''key.pem'' = Inl (ErrorString ''open: no such file or directory'')"
    by (simp add: unreadable_def)
  have cfg: "deref [default_config] (Some 0) = Some default_config"
    by (simp add: deref_def)
  from NewMQTTSender_certificate [where unicode_lower = example_unicode_lower
      and LoadX509KeyPair = unreadable and addr = example_tls_addr
      and certFile = "''cert.pem''" and key = "''key.pem''" and h = "[default_config]"
      and config = "Some 0" and c = default_config
      and err = "ErrorString ''open: no such file or directory''"] tls ld cfg
  have a: "NewMQTTSender example_unicode_lower unreadable example_tls_addr ''cert.pem'' ''key.pem'' [default_config] (Some 0) =
     Inr (None, [LoadX509KeyPair_call ''cert.pem'' ''key.pem'', LogError ''Failed loading x509 data''])"
    by blast
  from NewMQTTSender_certificate [where unicode_lower = example_unicode_lower
      and LoadX509KeyPair = unreadable and addr = example_addr
      and certFile = "''cert.pem''" and key = "''key.pem''" and h = "[default_config]"
      and config = "Some 0" and c = default_config] tcp cfg
  have b: "\<exists>s. NewMQTTSender example_unicode_lower unreadable example_addr ''cert.pem'' ''key.pem'' [default_config] (Some 0) =
            Inr (Some s, [])"
    by blast
  from a b show ?thesis by blast
qed

lemma deref_alloc_old:
  "deref h p = Some c \<Longrightarrow> deref (assign (snd (alloc h d)) (fst (alloc h d)) e) p = Some c"
  by (auto simp: deref_def alloc_def assign_def nth_append split: option.splits if_splits)

lemma SetQos_keeps:
  "deref h p = Some c \<Longrightarrow> \<exists>h'. SetQos h p v = Inr h' \<and> deref h' p = Some c"
  using deref_alloc_old [of h p c c] by (simp add: SetQos_def split_beta)

lemma SetRetain_keeps:
  "deref h p = Some c \<Longrightarrow> \<exists>h'. SetRetain h p v = Inr h' \<and> deref h' p = Some c"
  using deref_alloc_old [of h p c c] by (simp add: SetRetain_def split_beta)

lemma SetAutoreconnect_keeps:
  "deref h p = Some c \<Longrightarrow> \<exists>h'. SetAutoreconnect h p v = Inr h' \<and> deref h' p = Some c"
  using deref_alloc_old [of h p c c] by (simp add: SetAutoreconnect_def split_beta)

lemma call_setter_keeps:
  "deref h p = Some c \<Longrightarrow> \<exists>h'. call_setter h p call = Inr h' \<and> deref h' p = Some c"
  by (cases call) (simp_all add: SetQos_keeps SetRetain_keeps SetAutoreconnect_keeps)

lemma call_setters_keeps:
  "deref h p = Some c \<Longrightarrow> \<exists>h'. call_setters h p calls = Inr h' \<and> deref h' p = Some c"
proof (induction calls arbitrary: h)
  case Nil
  then show ?case by simp
next
  case (Cons call calls)
  from call_setter_keeps [OF Cons.prems] obtain h1
    where h1: "call_setter h p call = Inr h1" "deref h1 p = Some c" by blast
  from Cons.IH [OF h1(2)] h1(1) show ?case by simp
qed

lemma NewMqttConfig_defaults:
  "NewMqttConfig h = (p, h1) \<Longrightarrow>
   deref h1 p = Some \<lparr>qos = 0, retain = False, autoreconnect = False\<rparr>"
  by (auto simp: NewMqttConfig_def alloc_def deref_def)

lemma example_setter_calls:
  "call_setters [default_config] (Some 0)
     [Call_SetQos 2, Call_SetRetain True, Call_SetAutoreconnect True] =
   Inr [default_config, default_config\<lparr>qos := 2\<rparr>, default_config\<lparr>retain := True\<rparr>,
        default_config\<lparr>autoreconnect := True\<rparr>]"
  by (simp add: SetQos_def SetRetain_def SetAutoreconnect_def deref_def alloc_def assign_def)

text \<open>
  C10. A call of \<open>SetQos\<close>, \<open>SetRetain\<close> or \<open>SetAutoreconnect\<close> on a configuration
  leaves the configuration as it was: the setter writes its own copy. So after
  \<open>NewMqttConfig\<close> and any sequence of setter calls on the new configuration, every
  sender built from it carries qos 0, retain false, autoreconnect false, and its client
  is created with auto-reconnect off.
\<close>

theorem setters_mutate_a_copy:
  "(deref h p = Some c \<longrightarrow>
      (\<exists>h'. SetQos h p q = Inr h' \<and> deref h' p = Some c)
    \<and> (\<exists>h'. SetRetain h p b = Inr h' \<and> deref h' p = Some c)
    \<and> (\<exists>h'. SetAutoreconnect h p b = Inr h' \<and> deref h' p = Some c))
   \<and> (NewMqttConfig h0 = (p0, h1) \<longrightarrow>
      (\<exists>h2. call_setters h1 p0 calls = Inr h2
          \<and> (\<forall>unicode_lower LoadX509KeyPair addr certFile key s evs.
                NewMQTTSender unicode_lower LoadX509KeyPair addr certFile key h2 p0
                  = Inr (Some s, evs) \<longrightarrow>
                qos (opts s) = 0 \<and> retain (opts s) = False \<and> autoreconnect (opts s) = False
                \<and> AutoReconnect (client_options (client s)) = False)))"
proof (intro conjI impI)
  assume "NewMqttConfig h0 = (p0, h1)"
  then have d: "deref h1 p0 = Some \<lparr>qos = 0, retain = False, autoreconnect = False\<rparr>"
    by (rule NewMqttConfig_defaults)
  from call_setters_keeps [OF d] obtain h2
    where h2: "call_setters h1 p0 calls = Inr h2"
      "deref h2 p0 = Some \<lparr>qos = 0, retain = False, autoreconnect = False\<rparr>" by blast
  have "qos (opts s) = 0 \<and> retain (opts s) = False \<and> autoreconnect (opts s) = False
        \<and> AutoReconnect (client_options (client s)) = False"
    if "NewMQTTSender ul L addr certFile key h2 p0 = Inr (Some s, evs)"
    for ul L addr certFile key s evs
  proof -
    from NewMQTTSender_opts [OF that] h2(2)
    have "opts s = \<lparr>qos = 0, retain = False, autoreconnect = False\<rparr>" by simp
    with NewMQTTSender_opts [OF that] show ?thesis by simp
  qed
  with h2(1) show "\<exists>h2. call_setters h1 p0 calls = Inr h2
          \<and> (\<forall>unicode_lower LoadX509KeyPair addr certFile key s evs.
                NewMQTTSender unicode_lower LoadX509KeyPair addr certFile key h2 p0
                  = Inr (Some s, evs) \<longrightarrow>
                qos (opts s) = 0 \<and> retain (opts s) = False \<and> autoreconnect (opts s) = False
                \<and> AutoReconnect (client_options (client s)) = False)"
    by blast
qed (simp_all add: SetQos_keeps SetRetain_keeps SetAutoreconnect_keeps)

theorem setters_mutate_a_copy_witness:
  "NewMqttConfig [] = (Some 0, [default_config])
   \<and> SetQos [default_config] (Some 0) 2 = Inr [default_config, default_config\<lparr>qos := 2\<rparr>]
   \<and> call_setters [default_config] (Some 0)
        [Call_SetQos 2, Call_SetRetain True, Call_SetAutoreconnect True] =
      Inr [default_config, default_config\<lparr>qos := 2\<rparr>, default_config\<lparr>retain := True\<rparr>,
           default_config\<lparr>autoreconnect := True\<rparr>]
   \<and> (\<exists>s. NewMQTTSender example_unicode_lower unreadable example_addr ''cert.pem'' ''key.pem''
             [default_config, default_config\<lparr>qos := 2\<rparr>, default_config\<lparr>retain := True\<rparr>,
              default_config\<lparr>autoreconnect := True\<rparr>] (Some 0) = Inr (Some s, [])
          \<and> qos (opts s) = 0 \<and> retain (opts s) = False \<and> autoreconnect (opts s) = False
          \<and> AutoReconnect (client_options (client s)) = False)"
proof -
  let ?h2 = "[default_config, default_config\<lparr>qos := 2\<rparr>, default_config\<lparr>retain := True\<rparr>,
              default_config\<lparr>autoreconnect := True\<rparr>]"
  have new: "NewMqttConfig [] = (Some 0, [default_config])"
    by (simp add: NewMqttConfig_def alloc_def default_config_def)
  have one: "SetQos [default_config] (Some 0) 2 = Inr [default_config, default_config\<lparr>qos := 2\<rparr>]"
    by (simp add: SetQos_def deref_def alloc_def assign_def)
  let ?s = "\<lparr>client = NewClient
                   \<lparr>Servers = [''tcp://1.2.3.4:1883''], ClientID = ''pub'', Username = ''u'',
                    Password_opt = ''p'', AutoReconnect = False, TLSConfig = None\<rparr>,
                 topic = ''telemetry'', opts = default_config\<rparr>"
  have built:
    "NewMQTTSender example_unicode_lower unreadable example_addr ''cert.pem'' ''key.pem'' ?h2 (Some 0) = Inr (Some ?s, [])"
    by (simp add: NewMQTTSender_def example_addr_def ToLower_tcp Itoa_1883 deref_def
        default_config_def NewClientOptions_def)
  from setters_mutate_a_copy [where ?h0.0 = "[]" and ?p0.0 = "Some 0" and ?h1.0 = "[default_config]"
      and calls = "[Call_SetQos 2, Call_SetRetain True, Call_SetAutoreconnect True]"]
    new
  obtain h2 where h2: "call_setters [default_config] (Some 0)
        [Call_SetQos 2, Call_SetRetain True, Call_SetAutoreconnect True] = Inr h2"
    and all: "\<And>ul L addr certFile key s evs.
        NewMQTTSender ul L addr certFile key h2 (Some 0) = Inr (Some s, evs) \<Longrightarrow>
        qos (opts s) = 0 \<and> retain (opts s) = False \<and> autoreconnect (opts s) = False
        \<and> AutoReconnect (client_options (client s)) = False"
    by blast
  from h2 example_setter_calls have "h2 = ?h2" by simp
  with all [of example_unicode_lower unreadable example_addr "''cert.pem''" "''key.pem''" ?s "[]"]
    built
  have "qos (opts ?s) = 0 \<and> retain (opts ?s) = False \<and> autoreconnect (opts ?s) = False
          \<and> AutoReconnect (client_options (client ?s)) = False"
    by simp
  with new one example_setter_calls built show ?thesis by blast
qed

section \<open>Properties of the message bus trigger\<close>

lemma Initialize_started:
  assumes "Initialize trigger0 NewMessageClient w0 = (None, trigger, w', evs0)"
  shows "\<exists>c. client_t trigger = Some c \<and> NewMessageClient (MessageBus (Configuration_t trigger0)) = Inr c"
    and "Configuration_t trigger = Configuration_t trigger0"
    and "Runtime trigger = Runtime trigger0"
  using assms
  by (auto simp: Initialize_def Let_def split_beta split: sum.splits)

lemma example_initialized:
  "Initialize (example_trigger\<lparr>Runtime := rt\<rparr>) (\<lambda>cfg. Inr cl) () =
     (None,
      example_trigger\<lparr>Runtime := rt, client_t := Some cl, topics := [\<lparr>Topic_ch = ''events''\<rparr>]\<rparr>,
      (),
      [LogInfo ''Initializing Message Bus Trigger. Subscribing to topic: events, Publish Topic: out'',
       Bus_Subscribe [\<lparr>Topic_ch = ''events''\<rparr>], Go_worker])"
  by (simp add: Initialize_def example_trigger_def example_config_def Let_def split_beta)

text \<open>
  C2 (the code at the failing input). When the messaging client is created and its
  \<open>Subscribe\<close> returns an error, \<open>Initialize\<close> returns nil and starts the worker: the
  error of \<open>Subscribe\<close> is dropped. Only a failure to create the client is returned
  to the caller.
\<close>

theorem Initialize_drops_subscribe_error:
  assumes "NewMessageClient (MessageBus (Configuration_t trigger)) = Inr c"
    and "fst (Subscribe c w [\<lparr>Topic_ch = SubscribeTopic (Binding (Configuration_t trigger))\<rparr>])
           = Some subscribeErr"
  shows "fst (Initialize trigger NewMessageClient w) = None
       \<and> Go_worker \<in> set (snd (snd (snd (Initialize trigger NewMessageClient w))))"
  using assms(1) by (simp add: Initialize_def Let_def split_beta)

theorem Initialize_drops_subscribe_error_witness:
  "fst (Subscribe failing_client () [\<lparr>Topic_ch = ''events''\<rparr>])
     = Some (ErrorString ''cannot subscribe'')
   \<and> Initialize example_trigger (\<lambda>cfg. Inr failing_client) () =
     (None,
      example_trigger\<lparr>client_t := Some failing_client, topics := [\<lparr>Topic_ch = ''events''\<rparr>]\<rparr>,
      (),
      [LogInfo ''Initializing Message Bus Trigger. Subscribing to topic: events, Publish Topic: out'',
       Bus_Subscribe [\<lparr>Topic_ch = ''events''\<rparr>], Go_worker])"
proof -
  let ?i = "Initialize example_trigger (\<lambda>cfg. Inr failing_client) ()"
  have sub: "fst (Subscribe failing_client ()
                [\<lparr>Topic_ch = SubscribeTopic (Binding (Configuration_t example_trigger))\<rparr>])
             = Some (ErrorString ''cannot subscribe'')"
    by (simp add: failing_client_def)
  have "fst ?i = None"
    using Initialize_drops_subscribe_error [OF refl sub] by simp
  moreover have "snd ?i =
     (example_trigger\<lparr>client_t := Some failing_client, topics := [\<lparr>Topic_ch = ''events''\<rparr>]\<rparr>,
      (),
      [LogInfo ''Initializing Message Bus Trigger. Subscribing to topic: events, Publish Topic: out'',
       Bus_Subscribe [\<lparr>Topic_ch = ''events''\<rparr>], Go_worker])"
    by (simp add: Initialize_def example_trigger_def example_config_def Let_def split_beta)
  moreover have "fst (Subscribe failing_client () [\<lparr>Topic_ch = ''events''\<rparr>])
     = Some (ErrorString ''cannot subscribe'')"
    by (simp add: failing_client_def)
  ultimately show ?thesis by (simp add: prod_eq_iff)
qed

lemma processed_append: "processed (xs @ ys) = processed xs @ processed ys"
  by (induction xs rule: processed.induct) simp_all

lemma arrivals_append: "arrivals (xs @ ys) = arrivals xs @ arrivals ys"
  by (induction xs rule: arrivals.induct) simp_all

lemma receive_error:
  "receive trigger (MessageError e) w =
     Inr (w, [LogError (''Failed to receive ZMQ Message, '' @ Error_msg e)])"
  by (simp add: receive_def)

lemma receive_message:
  assumes "client_t trigger = Some c"
    and "Runtime trigger w (new_edgexContext trigger msgs) msgs = (edgexContext, w1)"
  shows "receive trigger (Messages msgs) w =
     (let publishTopic = PublishTopic (Binding (Configuration_t trigger));
          evs1 = [LogTrace ''Received message from bus''
                    [''topic'', publishTopic, CorrelationHeader, CorrelationID_msg msgs],
                  Runtime_ProcessEvent (new_edgexContext trigger msgs) msgs]
      in case OutputData edgexContext of
           None \<Rightarrow> Inr (w1, evs1)
         | Some outputData \<Rightarrow>
             (let outputEnvelope = \<lparr>CorrelationID_msg = CorrelationID edgexContext,
                                    Payload = outputData, ContentType = ContentTypeJSON\<rparr>;
                  err = fst (Publish c w1 outputEnvelope publishTopic)
              in Inr (snd (Publish c w1 outputEnvelope publishTopic),
                      evs1 @ [Bus_Publish outputEnvelope publishTopic err]
                           @ (case err of
                                Some e \<Rightarrow> [LogError (''Failed to publish Message to bus, ''
                                                      @ Error_msg e)]
                              | None \<Rightarrow> [])
                           @ [LogTrace ''Published message to bus''
                                [''topic'', publishTopic, CorrelationHeader,
                                 CorrelationID_msg msgs]])))"
  using assms
  by (simp add: receive_def Let_def split_beta split: option.splits)

lemma receive_turn:
  assumes "client_t trigger = Some c"
  shows "\<exists>w2 evs. receive trigger d w = Inr (w2, evs)
        \<and> processed evs = arrivals [d]
        \<and> length (filter is_bus_publish evs) \<le> length (arrivals [d])
        \<and> (\<forall>e \<in> set (error_notifications [d]).
              LogError (''Failed to receive ZMQ Message, '' @ Error_msg e) \<in> set evs)
        \<and> (\<forall>env t e. Bus_Publish env t (Some e) \<in> set evs \<longrightarrow>
              LogError (''Failed to publish Message to bus, '' @ Error_msg e) \<in> set evs)"
proof (cases d)
  case (MessageError e)
  then show ?thesis by (simp add: receive_error)
next
  case (Messages msgs)
  obtain edgexContext w1
    where run: "Runtime trigger w (new_edgexContext trigger msgs) msgs = (edgexContext, w1)"
    by (cases "Runtime trigger w (new_edgexContext trigger msgs) msgs") simp
  show ?thesis
    unfolding Messages receive_message [OF assms run]
    by (auto simp: Let_def split: option.splits)
qed

lemma worker_step:
  "receive trigger d w = Inr (w1, evs) \<Longrightarrow>
   worker trigger True (d # ds) w =
     (fst (worker trigger True ds w1), fst (snd (worker trigger True ds w1)),
      evs @ snd (snd (worker trigger True ds w1)))"
  by (simp add: split_beta)

lemma worker_running:
  assumes "client_t trigger = Some c"
  shows "\<exists>w1 evs. worker trigger True ds w = (Waiting, w1, evs)
        \<and> processed evs = arrivals ds
        \<and> length (filter is_bus_publish evs) \<le> length (arrivals ds)
        \<and> (\<forall>e \<in> set (error_notifications ds).
              LogError (''Failed to receive ZMQ Message, '' @ Error_msg e) \<in> set evs)
        \<and> (\<forall>env t e. Bus_Publish env t (Some e) \<in> set evs \<longrightarrow>
              LogError (''Failed to publish Message to bus, '' @ Error_msg e) \<in> set evs)"
proof (induction ds arbitrary: w)
  case Nil
  then show ?case by simp
next
  case (Cons d ds)
  from receive_turn [OF assms, of d w] obtain w2 evs
    where turn: "receive trigger d w = Inr (w2, evs)"
      and p: "processed evs = arrivals [d]"
      and n: "length (filter is_bus_publish evs) \<le> length (arrivals [d])"
      and e: "\<forall>e \<in> set (error_notifications [d]).
              LogError (''Failed to receive ZMQ Message, '' @ Error_msg e) \<in> set evs"
      and f: "\<forall>env t e. Bus_Publish env t (Some e) \<in> set evs \<longrightarrow>
              LogError (''Failed to publish Message to bus, '' @ Error_msg e) \<in> set evs"
    by blast
  from Cons.IH [of w2] obtain w3 evs'
    where rest: "worker trigger True ds w2 = (Waiting, w3, evs')"
      and p': "processed evs' = arrivals ds"
      and n': "length (filter is_bus_publish evs') \<le> length (arrivals ds)"
      and e': "\<forall>e \<in> set (error_notifications ds).
              LogError (''Failed to receive ZMQ Message, '' @ Error_msg e) \<in> set evs'"
      and f': "\<forall>env t e. Bus_Publish env t (Some e) \<in> set evs' \<longrightarrow>
              LogError (''Failed to publish Message to bus, '' @ Error_msg e) \<in> set evs'"
    by blast
  have w: "worker trigger True (d # ds) w = (Waiting, w3, evs @ evs')"
    using worker_step [OF turn, of ds] rest by simp
  have a: "arrivals (d # ds) = arrivals [d] @ arrivals ds"
    using arrivals_append [of "[d]" ds] by simp
  have en: "set (error_notifications (d # ds)) =
      set (error_notifications [d]) \<union> set (error_notifications ds)"
    by (cases d) simp_all
  have "processed (evs @ evs') = arrivals (d # ds)"
    by (simp only: processed_append p p' a)
  moreover have "length (filter is_bus_publish (evs @ evs')) \<le> length (arrivals (d # ds))"
    using n n' by (simp only: a filter_append length_append)
  moreover have "\<forall>e \<in> set (error_notifications (d # ds)).
              LogError (''Failed to receive ZMQ Message, '' @ Error_msg e) \<in> set (evs @ evs')"
    using e e' unfolding en by auto
  moreover have "\<forall>env t e. Bus_Publish env t (Some e) \<in> set (evs @ evs') \<longrightarrow>
              LogError (''Failed to publish Message to bus, '' @ Error_msg e) \<in> set (evs @ evs')"
    using f f' by auto
  ultimately show ?case using w by blast
qed

lemma worker_append:
  assumes "client_t trigger = Some c"
    and "worker trigger True ds w = (Waiting, w1, evs)"
    and "receive trigger d w1 = Inr (w2, evs2)"
  shows "worker trigger True (ds @ [d]) w = (Waiting, w2, evs @ evs2)"
  using assms(2,3)
proof (induction ds arbitrary: w evs)
  case Nil
  then show ?case by simp
next
  case (Cons a ds)
  from receive_turn [OF assms(1), of a w] obtain wa evsa
    where turn: "receive trigger a w = Inr (wa, evsa)" by blast
  from worker_running [OF assms(1), of ds wa] obtain wb evsb
    where rest: "worker trigger True ds wa = (Waiting, wb, evsb)" by blast
  from Cons.prems(1) worker_step [OF turn, of ds] rest
  have eq: "w1 = wb" "evs = evsa @ evsb" by simp_all
  from Cons.IH [OF _ Cons.prems(2)] rest eq
  have "worker trigger True (ds @ [d]) wa = (Waiting, w2, evsb @ evs2)" by simp
  with worker_step [OF turn, of "ds @ [d]"] eq show ?case by simp
qed

text \<open>
  C6 (as amended). Take an arrival read by the worker of an initialised trigger. The
  context handed to the pipeline run carries the correlation id of the arrival. If the
  run left output data in the context, the loop's turn calls \<open>Publish\<close> exactly once,
  with the configured publish topic and an envelope that carries the correlation id
  that the context holds after the run, the output data and the JSON content type; so
  the envelope carries the correlation id of the arrival whenever the run has not
  changed the correlation id of the context. If the run left no output data, the turn
  calls \<open>Publish\<close> not at all.
\<close>

theorem receive_publishes_output:
  assumes "Initialize trigger0 NewMessageClient w0 = (None, trigger, w', evs0)"
    and "Runtime trigger w (new_edgexContext trigger msgs) msgs = (edgexContext, w1)"
  shows "CorrelationID (new_edgexContext trigger msgs) = CorrelationID_msg msgs
       \<and> (\<exists>w2 evs. receive trigger (Messages msgs) w = Inr (w2, evs)
            \<and> (\<forall>out. OutputData edgexContext = Some out \<longrightarrow>
                 (\<exists>err. filter is_bus_publish evs =
                    [Bus_Publish \<lparr>CorrelationID_msg = CorrelationID edgexContext, Payload = out,
                                  ContentType = ContentTypeJSON\<rparr>
                       (PublishTopic (Binding (Configuration_t trigger0))) err])
                 \<and> (CorrelationID edgexContext = CorrelationID (new_edgexContext trigger msgs) \<longrightarrow>
                      (\<exists>err. filter is_bus_publish evs =
                         [Bus_Publish \<lparr>CorrelationID_msg = CorrelationID_msg msgs, Payload = out,
                                       ContentType = ContentTypeJSON\<rparr>
                            (PublishTopic (Binding (Configuration_t trigger0))) err])))
            \<and> (OutputData edgexContext = None \<longrightarrow> filter is_bus_publish evs = []))"
proof -
  from Initialize_started [OF assms(1)] obtain c
    where c: "client_t trigger = Some c"
      and cfg: "Configuration_t trigger = Configuration_t trigger0" by blast
  have id: "CorrelationID (new_edgexContext trigger msgs) = CorrelationID_msg msgs"
    by (simp add: new_edgexContext_def)
  have "\<exists>w2 evs. receive trigger (Messages msgs) w = Inr (w2, evs)
            \<and> (\<forall>out. OutputData edgexContext = Some out \<longrightarrow>
                 (\<exists>err. filter is_bus_publish evs =
                    [Bus_Publish \<lparr>CorrelationID_msg = CorrelationID edgexContext, Payload = out,
                                  ContentType = ContentTypeJSON\<rparr>
                       (PublishTopic (Binding (Configuration_t trigger0))) err]))
            \<and> (OutputData edgexContext = None \<longrightarrow> filter is_bus_publish evs = [])"
    unfolding receive_message [OF c assms(2)]
    by (auto simp: Let_def cfg split: option.splits)
  then obtain w2 evs
    where r: "receive trigger (Messages msgs) w = Inr (w2, evs)"
      and o: "\<forall>out. OutputData edgexContext = Some out \<longrightarrow>
                 (\<exists>err. filter is_bus_publish evs =
                    [Bus_Publish \<lparr>CorrelationID_msg = CorrelationID edgexContext, Payload = out,
                                  ContentType = ContentTypeJSON\<rparr>
                       (PublishTopic (Binding (Configuration_t trigger0))) err])"
      and n: "OutputData edgexContext = None \<longrightarrow> filter is_bus_publish evs = []"
    by (elim exE conjE) (rule that, assumption+)
  show ?thesis
    unfolding id by (rule conjI [OF refl]) (use r o n in auto)
qed

theorem receive_publishes_output_witness:
  "(\<exists>w2 evs. receive (example_trigger\<lparr>Runtime := echo_runtime, client_t := Some accepting_client,
                                      topics := [\<lparr>Topic_ch = ''events''\<rparr>]\<rparr>)
                (Messages (example_msg ''abc-123'')) () = Inr (w2, evs)
        \<and> (\<exists>err. filter is_bus_publish evs =
                [Bus_Publish \<lparr>CorrelationID_msg = ''abc-123'', Payload = [1, 2],
                              ContentType = ''application/json''\<rparr> ''out'' err]))
   \<and> (\<exists>w2 evs. receive (example_trigger\<lparr>Runtime := relabel_runtime, client_t := Some accepting_client,
                                      topics := [\<lparr>Topic_ch = ''events''\<rparr>]\<rparr>)
                (Messages (example_msg ''abc-123'')) () = Inr (w2, evs)
        \<and> (\<exists>err. filter is_bus_publish evs =
                [Bus_Publish \<lparr>CorrelationID_msg = ''changed'', Payload = [1, 2],
                              ContentType = ''application/json''\<rparr> ''out'' err]))
   \<and> (\<exists>w2 evs. receive (example_trigger\<lparr>Runtime := silent_runtime, client_t := Some accepting_client,
                                      topics := [\<lparr>Topic_ch = ''events''\<rparr>]\<rparr>)
                (Messages (example_msg ''abc-123'')) () = Inr (w2, evs)
        \<and> filter is_bus_publish evs = [])"
proof -
  let ?t = "example_trigger\<lparr>Runtime := echo_runtime, client_t := Some accepting_client,
                            topics := [\<lparr>Topic_ch = ''events''\<rparr>]\<rparr>"
  let ?r = "example_trigger\<lparr>Runtime := relabel_runtime, client_t := Some accepting_client,
                            topics := [\<lparr>Topic_ch = ''events''\<rparr>]\<rparr>"
  let ?u = "example_trigger\<lparr>Runtime := silent_runtime, client_t := Some accepting_client,
                            topics := [\<lparr>Topic_ch = ''events''\<rparr>]\<rparr>"
  let ?m = "example_msg ''abc-123''"
  let ?ctx = "(new_edgexContext ?t ?m)\<lparr>OutputData := Some [1, 2]\<rparr>"
  let ?ctxr = "(new_edgexContext ?r ?m)\<lparr>CorrelationID := ''changed'', OutputData := Some [1, 2]\<rparr>"
  have run: "Runtime ?t () (new_edgexContext ?t ?m) ?m = (?ctx, ())"
    by (simp add: echo_runtime_def example_msg_def)
  have cid: "CorrelationID ?ctx = CorrelationID (new_edgexContext ?t ?m)"
    by simp
  have out: "OutputData ?ctx = Some [1, 2]" by simp
  from receive_publishes_output [OF example_initialized [of echo_runtime accepting_client] run]
    out cid
  have "\<exists>w2 evs. receive ?t (Messages ?m) () = Inr (w2, evs)
       \<and> (\<exists>err. filter is_bus_publish evs =
               [Bus_Publish \<lparr>CorrelationID_msg = CorrelationID_msg ?m, Payload = [1, 2],
                             ContentType = ContentTypeJSON\<rparr>
                  (PublishTopic (Binding (Configuration_t (example_trigger\<lparr>Runtime := echo_runtime\<rparr>))))
                  err])"
    by blast
  then have a: "\<exists>w2 evs. receive ?t (Messages ?m) () = Inr (w2, evs)
        \<and> (\<exists>err. filter is_bus_publish evs =
                [Bus_Publish \<lparr>CorrelationID_msg = ''abc-123'', Payload = [1, 2],
                              ContentType = ''application/json''\<rparr> ''out'' err])"
    by (simp add: example_msg_def ContentTypeJSON_def example_trigger_def example_config_def)
  have runr: "Runtime ?r () (new_edgexContext ?r ?m) ?m = (?ctxr, ())"
    by (simp add: relabel_runtime_def example_msg_def)
  have outr: "OutputData ?ctxr = Some [1, 2]" by simp
  from receive_publishes_output [OF example_initialized [of relabel_runtime accepting_client] runr]
    outr
  have "\<exists>w2 evs. receive ?r (Messages ?m) () = Inr (w2, evs)
       \<and> (\<exists>err. filter is_bus_publish evs =
               [Bus_Publish \<lparr>CorrelationID_msg = CorrelationID ?ctxr, Payload = [1, 2],
                             ContentType = ContentTypeJSON\<rparr>
                  (PublishTopic (Binding (Configuration_t
                     (example_trigger\<lparr>Runtime := relabel_runtime\<rparr>)))) err])"
    by blast
  then have r: "\<exists>w2 evs. receive ?r (Messages ?m) () = Inr (w2, evs)
        \<and> (\<exists>err. filter is_bus_publish evs =
                [Bus_Publish \<lparr>CorrelationID_msg = ''changed'', Payload = [1, 2],
                              ContentType = ''application/json''\<rparr> ''out'' err])"
    by (simp add: ContentTypeJSON_def example_trigger_def example_config_def)
  have run': "Runtime ?u () (new_edgexContext ?u ?m) ?m = (new_edgexContext ?u ?m, ())"
    by (simp add: silent_runtime_def)
  have out': "OutputData (new_edgexContext ?u ?m) = None"
    by (simp add: new_edgexContext_def)
  from receive_publishes_output [OF example_initialized [of silent_runtime accepting_client] run']
    out'
  have b: "\<exists>w2 evs. receive ?u (Messages ?m) () = Inr (w2, evs)
        \<and> filter is_bus_publish evs = []"
    by blast
  from a r b show ?thesis by blast
qed

text \<open>
  The claim as it was stated fails: an arrival with correlation id \<open>abc-123\<close>, run
  through a pipeline that overwrites the correlation id of the context, is answered by
  an envelope that carries the overwritten id.
\<close>

theorem receive_publishes_output_counterexample:
  "Initialize (example_trigger\<lparr>Runtime := relabel_runtime\<rparr>) (\<lambda>cfg. Inr accepting_client) () =
     (None,
      example_trigger\<lparr>Runtime := relabel_runtime, client_t := Some accepting_client,
                      topics := [\<lparr>Topic_ch = ''events''\<rparr>]\<rparr>,
      (),
      [LogInfo ''Initializing Message Bus Trigger. Subscribing to topic: events, Publish Topic: out'',
       Bus_Subscribe [\<lparr>Topic_ch = ''events''\<rparr>], Go_worker])
   \<and> receive (example_trigger\<lparr>Runtime := relabel_runtime, client_t := Some accepting_client,
                               topics := [\<lparr>Topic_ch = ''events''\<rparr>]\<rparr>)
        (Messages (example_msg ''abc-123'')) () =
     Inr ((),
          [LogTrace ''Received message from bus'' [''topic'', ''out'', ''correlation-id'', ''abc-123''],
           Runtime_ProcessEvent
             \<lparr>EventID = [], EventChecksum = [], CorrelationID = ''abc-123'',
              Configuration = example_config, OutputData = None\<rparr>
             (example_msg ''abc-123''),
           Bus_Publish \<lparr>CorrelationID_msg = ''changed'', Payload = [1, 2],
                         ContentType = ''application/json''\<rparr> ''out'' None,
           LogTrace ''Published message to bus''
             [''topic'', ''out'', ''correlation-id'', ''abc-123'']])"
proof -
  have "receive (example_trigger\<lparr>Runtime := relabel_runtime, client_t := Some accepting_client,
                               topics := [\<lparr>Topic_ch = ''events''\<rparr>]\<rparr>)
        (Messages (example_msg ''abc-123'')) () =
     Inr ((),
          [LogTrace ''Received message from bus'' [''topic'', ''out'', ''correlation-id'', ''abc-123''],
           Runtime_ProcessEvent
             \<lparr>EventID = [], EventChecksum = [], CorrelationID = ''abc-123'',
              Configuration = example_config, OutputData = None\<rparr>
             (example_msg ''abc-123''),
           Bus_Publish \<lparr>CorrelationID_msg = ''changed'', Payload = [1, 2],
                         ContentType = ''application/json''\<rparr> ''out'' None,
           LogTrace ''Published message to bus''
             [''topic'', ''out'', ''correlation-id'', ''abc-123'']])"
    by (simp add: receive_def example_trigger_def relabel_runtime_def accepting_client_def
        new_edgexContext_def example_msg_def example_config_def CorrelationHeader_def
        ContentTypeJSON_def Let_def)
  with example_initialized [of relabel_runtime accepting_client] show ?thesis by simp
qed

text \<open>
  C9. The worker of an initialised trigger, run on any sequence of error notifications
  and arrivals, is still waiting in its loop afterwards: it has handed every arrival to
  the runtime, in order; it has called \<open>Publish\<close> at most once per arrival; every
  error notification and every failed publish is logged; and whatever is delivered next
  is handled by a full turn of the loop (which hands an arrival to the runtime and
  calls \<open>Publish\<close> at most once).
\<close>

theorem worker_never_exits:
  assumes "Initialize trigger0 NewMessageClient w0 = (None, trigger, w', evs0)"
  shows "\<exists>w1 evs. worker trigger True ds w = (Waiting, w1, evs)
        \<and> processed evs = arrivals ds
        \<and> length (filter is_bus_publish evs) \<le> length (arrivals ds)
        \<and> (\<forall>e \<in> set (error_notifications ds).
              LogError (''Failed to receive ZMQ Message, '' @ Error_msg e) \<in> set evs)
        \<and> (\<forall>env t e. Bus_Publish env t (Some e) \<in> set evs \<longrightarrow>
              LogError (''Failed to publish Message to bus, '' @ Error_msg e) \<in> set evs)
        \<and> (\<forall>d. \<exists>w2 evs2. receive trigger d w1 = Inr (w2, evs2)
              \<and> worker trigger True (ds @ [d]) w = (Waiting, w2, evs @ evs2)
              \<and> processed evs2 = arrivals [d]
              \<and> length (filter is_bus_publish evs2) \<le> 1)"
proof -
  from Initialize_started [OF assms] obtain c where c: "client_t trigger = Some c" by blast
  from worker_running [OF c, of ds w] obtain w1 evs
    where run: "worker trigger True ds w = (Waiting, w1, evs)"
      and rest: "processed evs = arrivals ds"
        "length (filter is_bus_publish evs) \<le> length (arrivals ds)"
        "\<forall>e \<in> set (error_notifications ds).
              LogError (''Failed to receive ZMQ Message, '' @ Error_msg e) \<in> set evs"
        "\<forall>env t e. Bus_Publish env t (Some e) \<in> set evs \<longrightarrow>
              LogError (''Failed to publish Message to bus, '' @ Error_msg e) \<in> set evs"
    by blast
  have "\<exists>w2 evs2. receive trigger d w1 = Inr (w2, evs2)
              \<and> worker trigger True (ds @ [d]) w = (Waiting, w2, evs @ evs2)
              \<and> processed evs2 = arrivals [d]
              \<and> length (filter is_bus_publish evs2) \<le> 1" for d
  proof -
    from receive_turn [OF c, of d w1] obtain w2 evs2
      where turn: "receive trigger d w1 = Inr (w2, evs2)"
        and p: "processed evs2 = arrivals [d]"
        and n: "length (filter is_bus_publish evs2) \<le> length (arrivals [d])" by blast
    have "length (arrivals [d]) \<le> 1" by (cases d) simp_all
    with n have "length (filter is_bus_publish evs2) \<le> 1" by simp
    with worker_append [OF c run turn] turn p show ?thesis by blast
  qed
  with run rest show ?thesis by blast
qed

theorem worker_never_exits_witness:
  "\<exists>w1 evs. worker (example_trigger\<lparr>Runtime := echo_runtime, client_t := Some failing_client,
                                     topics := [\<lparr>Topic_ch = ''events''\<rparr>]\<rparr>) True
               [Messages (example_msg ''a''), MessageError (ErrorString ''lost''),
                Messages (example_msg ''b'')] () = (Waiting, w1, evs)
       \<and> processed evs = [example_msg ''a'', example_msg ''b'']
       \<and> LogError ''Failed to receive ZMQ Message, lost'' \<in> set evs"
proof -
  let ?ds = "[Messages (example_msg ''a''), MessageError (ErrorString ''lost''),
              Messages (example_msg ''b'')]"
  have a: "arrivals ?ds = [example_msg ''a'', example_msg ''b'']" by simp
  have e: "error_notifications ?ds = [ErrorString ''lost'']" by simp
  from worker_never_exits [OF example_initialized [of echo_runtime failing_client],
      where ds = ?ds and w = "()"]
  show ?thesis unfolding a e by fastforce
qed

end
